theory Spec2Isabelle
  imports Main "HOL-Library.Word"
begin

section \<open>Values shared by the token and user packages\<close>

type_synonym byte = "8 word"

text \<open>
  A Go \<^verbatim>\<open>[32]byte\<close>: the result type of \<^verbatim>\<open>sha256.Sum256\<close>, and the buffer
  \<^verbatim>\<open>make([]byte, 32)\<close> once \<^verbatim>\<open>rand.Read\<close> has filled it.
\<close>

typedef array32 = "{bs :: byte list. length bs = 32}"
  by (rule exI [of _ "replicate 32 0"]) simp

text \<open>
  Go error values. The first three are the token service's sentinels, the next seven the
  user service's. \<open>ErrNoRows\<close> is \<^verbatim>\<open>sql.ErrNoRows\<close>, \<open>ErrMismatchedHashAndPassword\<close>
  is bcrypt's sentinel, \<open>ErrConflict\<close> is the driver's error for a violated uniqueness
  constraint, \<open>ErrWrapped\<close> is \<^verbatim>\<open>fmt.Errorf("...: %w", err)\<close>, and \<open>ErrOther\<close> stands for every
  other error a library or the driver can return (random source, connection, context).
\<close>

datatype error =
    ErrTokenNotFound
  | ErrTokenExpired
  | ErrInvalidScope
  | ErrUserNotFound
  | ErrUserAlreadyExists
  | ErrInvalidUsername
  | ErrInvalidPassword
  | ErrUserNotApproved
  | ErrUnauthorized
  | ErrUserAlreadyApproved
  | ErrNoRows
  | ErrConflict
  | ErrMismatchedHashAndPassword
  | ErrWrapped string error
  | ErrOther string

text \<open>
  Instants (\<^verbatim>\<open>time.Time\<close>) and durations (\<^verbatim>\<open>time.Duration\<close>) are counted in
  nanoseconds. Go's \<^verbatim>\<open>int\<close> and \<^verbatim>\<open>int64\<close> are modelled by \<open>int\<close>: the code compares
  and copies them and never does arithmetic that could wrap, and the conversion
  \<^verbatim>\<open>int(userID)\<close> is the identity on a 64-bit target.
\<close>

type_synonym time = int
type_synonym duration = int

section \<open>token.go\<close>

definition ScopeAuth :: string where
  "ScopeAuth = ''authentication''"

definition ScopeDeploy :: string where
  "ScopeDeploy = ''deployment''"

definition ScopeRefresh :: string where
  "ScopeRefresh = ''refresh''"

definition Hour :: duration where
  "Hour = 3600 * 1000000000"

definition AuthTokenDuration :: duration where
  "AuthTokenDuration = 2 * Hour"

definition DeployTokenDuration :: duration where
  "DeployTokenDuration = 4 * Hour"

definition RefreshTokenDuration :: duration where
  "RefreshTokenDuration = 7 * 24 * Hour"

record Token =
  PlainText :: string
  Hash :: "byte list"
  UserID :: int
  Expiry :: time
  Scope :: string

subsection \<open>The standard base-32 encoding without padding\<close>

text \<open>
  \<^verbatim>\<open>base32.StdEncoding.WithPadding(base32.NoPadding).EncodeToString\<close>: the bytes are read
  as one bit string, most significant bit first, cut into groups of five bits (the last
  group filled with zero bits), and each group indexes the alphabet of RFC 4648. No
  \<^verbatim>\<open>=\<close> is appended.
\<close>

definition encodeStd :: string where
  "encodeStd = ''ABCDEFGHIJKLMNOPQRSTUVWXYZ234567''"

definition byte_bits :: "byte \<Rightarrow> bool list" where
  "byte_bits b = map (bit b) [7, 6, 5, 4, 3, 2, 1, 0]"

definition bits_val :: "bool list \<Rightarrow> nat" where
  "bits_val bs = foldl (\<lambda>a b. 2 * a + (if b then 1 else 0)) 0 bs"

fun quanta :: "bool list \<Rightarrow> nat list" where
  "quanta [] = []"
| "quanta (b # bs) = bits_val (take 5 (b # bs @ replicate 4 False)) # quanta (drop 4 bs)"

definition EncodeToString :: "byte list \<Rightarrow> string" where
  "EncodeToString src = map (\<lambda>q. encodeStd ! q) (quanta (concat (map byte_bits src)))"

subsection \<open>GenerateToken\<close>

text \<open>
  The function reads the clock, then the random source. Both are inputs of the model:
  \<open>now\<close> is what \<^verbatim>\<open>time.Now()\<close> returned, \<open>rnd\<close> is the outcome of \<^verbatim>\<open>rand.Read\<close> on
  the 32-byte buffer (the error, or the buffer's contents). \<open>sha256\<close> is
  \<^verbatim>\<open>sha256.Sum256\<close> applied to the bytes of a string; the library is not part of the
  repository, so every definition takes it as a parameter.
\<close>

definition GenerateToken ::
  "(string \<Rightarrow> array32) \<Rightarrow> time \<Rightarrow> error + array32 \<Rightarrow> int \<Rightarrow> duration \<Rightarrow> string \<Rightarrow> error + Token"
where
  "GenerateToken sha256 now rnd userID ttl scope =
     (case rnd of
        Inl err \<Rightarrow> Inl err
      | Inr emptyByte \<Rightarrow>
          (let plain = EncodeToString (Rep_array32 emptyByte) in
           Inr \<lparr>PlainText = plain,
                Hash = Rep_array32 (sha256 plain),
                UserID = userID,
                Expiry = now + ttl,
                Scope = scope\<rparr>))"

section \<open>token_repository.go\<close>

text \<open>
  A row of the \<^verbatim>\<open>tokens\<close> table, with the four columns the statements name. The table
  is the list of its rows in insertion order. The plaintext has no column.
\<close>

record token_row =
  row_hash :: "byte list"
  row_user_id :: int
  row_expiry :: time
  row_scope :: string

definition row_of_token :: "Token \<Rightarrow> token_row" where
  "row_of_token token =
     \<lparr>row_hash = Hash token, row_user_id = UserID token,
      row_expiry = Expiry token, row_scope = Scope token\<rparr>"

text \<open>
  Every statement sent to the database has an outcome that the code cannot control:
  \<open>None\<close> when the driver executed it, \<open>Some err\<close> when it failed (connection lost,
  context cancelled) and changed nothing.
\<close>

type_synonym db_fault = "error option"

text \<open>
  Modelled from the spec: the schema of the \<^verbatim>\<open>tokens\<close> table is not under src/. The
  persistence contract says that an insert fails with a conflict error when a row with
  the same hash exists and never overwrites it; \<open>Insert\<close> models that constraint.
\<close>

definition Insert :: "db_fault \<Rightarrow> token_row list \<Rightarrow> Token \<Rightarrow> error option \<times> token_row list" where
  "Insert fault tbl token =
     (case fault of
        Some err \<Rightarrow> (Some err, tbl)
      | None \<Rightarrow>
          if Hash token \<in> set (map row_hash tbl) then (Some ErrConflict, tbl)
          else (None, tbl @ [row_of_token token]))"

text \<open>
  What \<open>CreateNewToken\<close> observes of its environment: the clock and the random source
  read by \<open>GenerateToken\<close>, and the outcome of the INSERT statement.
\<close>

record issue_io =
  io_now :: time
  io_rand :: "error + array32"
  io_insert :: db_fault

text \<open>
  When the INSERT fails the Go function returns the unsaved token together with the
  error; each caller tests the error first and drops the token, so the result here is
  the error alone.
\<close>

definition CreateNewToken ::
  "(string \<Rightarrow> array32) \<Rightarrow> issue_io \<Rightarrow> token_row list \<Rightarrow> int \<Rightarrow> duration \<Rightarrow> string
     \<Rightarrow> (error + Token) \<times> token_row list"
where
  "CreateNewToken sha256 io tbl userID ttl scope =
     (case GenerateToken sha256 (io_now io) (io_rand io) userID ttl scope of
        Inl err \<Rightarrow> (Inl err, tbl)
      | Inr token \<Rightarrow>
          (case Insert (io_insert io) tbl token of
             (Some err, tbl') \<Rightarrow> (Inl err, tbl')
           | (None, tbl') \<Rightarrow> (Inr token, tbl')))"

definition DeleteAllTokensForUser ::
  "db_fault \<Rightarrow> token_row list \<Rightarrow> int \<Rightarrow> string \<Rightarrow> error option \<times> token_row list"
where
  "DeleteAllTokensForUser fault tbl userID scope =
     (case fault of
        Some err \<Rightarrow> (Some err, tbl)
      | None \<Rightarrow> (None, filter (\<lambda>r. \<not> (row_scope r = scope \<and> row_user_id r = userID)) tbl))"

definition DeleteTokenByHash ::
  "db_fault \<Rightarrow> token_row list \<Rightarrow> byte list \<Rightarrow> error option \<times> token_row list"
where
  "DeleteTokenByHash fault tbl hash =
     (case fault of
        Some err \<Rightarrow> (Some err, tbl)
      | None \<Rightarrow> (None, filter (\<lambda>r. row_hash r \<noteq> hash) tbl))"

text \<open>
  \<^verbatim>\<open>QueryRowContext(...).Scan\<close> reads the first row of the result, or returns
  \<^verbatim>\<open>sql.ErrNoRows\<close>. The token it fills has no plaintext.
\<close>

definition token_of_row :: "token_row \<Rightarrow> Token" where
  "token_of_row r =
     \<lparr>PlainText = [], Hash = row_hash r, UserID = row_user_id r,
      Expiry = row_expiry r, Scope = row_scope r\<rparr>"

definition GetByHash :: "db_fault \<Rightarrow> token_row list \<Rightarrow> byte list \<Rightarrow> error + Token" where
  "GetByHash fault tbl hash =
     (case fault of
        Some err \<Rightarrow> Inl err
      | None \<Rightarrow>
          (case find (\<lambda>r. row_hash r = hash) tbl of
             None \<Rightarrow> Inl ErrNoRows
           | Some r \<Rightarrow> Inr (token_of_row r)))"

section \<open>token_service.go\<close>

text \<open>
  The service holds the repository; the repository holds the table. Each operation takes
  the table and returns it updated, next to its Go result.
\<close>

definition CreateAuthToken ::
  "(string \<Rightarrow> array32) \<Rightarrow> db_fault \<Rightarrow> issue_io \<Rightarrow> token_row list \<Rightarrow> int \<Rightarrow> duration
     \<Rightarrow> (error + Token) \<times> token_row list"
where
  "CreateAuthToken sha256 del io tbl userID ttl =
     (case DeleteAllTokensForUser del tbl userID ScopeAuth of
        (Some err, tbl1) \<Rightarrow> (Inl err, tbl1)
      | (None, tbl1) \<Rightarrow>
          (case CreateNewToken sha256 io tbl1 userID ttl ScopeAuth of
             (Inl err, tbl2) \<Rightarrow> (Inl err, tbl2)
           | (Inr token, tbl2) \<Rightarrow> (Inr token, tbl2)))"

definition ValidateToken ::
  "(string \<Rightarrow> array32) \<Rightarrow> db_fault \<Rightarrow> time \<Rightarrow> token_row list \<Rightarrow> string \<Rightarrow> string \<Rightarrow> error + Token"
where
  "ValidateToken sha256 fault now tbl plaintext scope =
     (let hash = sha256 plaintext in
      case GetByHash fault tbl (Rep_array32 hash) of
        Inl err \<Rightarrow> Inl ErrTokenNotFound
      | Inr token \<Rightarrow>
          if now > Expiry token then Inl ErrTokenExpired
          else if Scope token \<noteq> scope then Inl ErrInvalidScope
          else Inr token)"

definition RevokeToken ::
  "db_fault \<Rightarrow> token_row list \<Rightarrow> byte list \<Rightarrow> error option \<times> token_row list"
where
  "RevokeToken fault tbl hash = DeleteTokenByHash fault tbl hash"

definition RevokeAllUserTokens ::
  "db_fault \<Rightarrow> token_row list \<Rightarrow> int \<Rightarrow> string \<Rightarrow> error option \<times> token_row list"
where
  "RevokeAllUserTokens fault tbl userID scope = DeleteAllTokensForUser fault tbl userID scope"

definition CreateAuthTokenWithRefresh ::
  "(string \<Rightarrow> array32) \<Rightarrow> issue_io \<Rightarrow> issue_io \<Rightarrow> token_row list \<Rightarrow> int
     \<Rightarrow> (error + Token \<times> Token) \<times> token_row list"
where
  "CreateAuthTokenWithRefresh sha256 io1 io2 tbl userID =
     (case CreateNewToken sha256 io1 tbl userID AuthTokenDuration ScopeAuth of
        (Inl err, tbl1) \<Rightarrow> (Inl err, tbl1)
      | (Inr authToken, tbl1) \<Rightarrow>
          (case CreateNewToken sha256 io2 tbl1 userID RefreshTokenDuration ScopeRefresh of
             (Inl err, tbl2) \<Rightarrow> (Inl err, tbl2)
           | (Inr refreshToken, tbl2) \<Rightarrow> (Inr (authToken, refreshToken), tbl2)))"

definition RefreshAuthToken ::
  "(string \<Rightarrow> array32) \<Rightarrow> db_fault \<Rightarrow> time \<Rightarrow> issue_io \<Rightarrow> token_row list \<Rightarrow> string
     \<Rightarrow> (error + Token) \<times> token_row list"
where
  "RefreshAuthToken sha256 fault now io tbl refreshTokenPlaintext =
     (case ValidateToken sha256 fault now tbl refreshTokenPlaintext ScopeRefresh of
        Inl err \<Rightarrow> (Inl err, tbl)
      | Inr refreshToken \<Rightarrow>
          (case CreateNewToken sha256 io tbl (UserID refreshToken) AuthTokenDuration ScopeAuth of
             (Inl err, tbl1) \<Rightarrow> (Inl err, tbl1)
           | (Inr authToken, tbl1) \<Rightarrow> (Inr authToken, tbl1)))"

definition CreateDeployToken ::
  "(string \<Rightarrow> array32) \<Rightarrow> db_fault \<Rightarrow> issue_io \<Rightarrow> token_row list \<Rightarrow> int
     \<Rightarrow> (error + Token) \<times> token_row list"
where
  "CreateDeployToken sha256 del io tbl userID =
     (case DeleteAllTokensForUser del tbl userID ScopeDeploy of
        (Some err, tbl1) \<Rightarrow> (Inl err, tbl1)
      | (None, tbl1) \<Rightarrow>
          (case CreateNewToken sha256 io tbl1 userID DeployTokenDuration ScopeDeploy of
             (Inl err, tbl2) \<Rightarrow> (Inl err, tbl2)
           | (Inr token, tbl2) \<Rightarrow> (Inr token, tbl2)))"

section \<open>The password holder and the user record\<close>

record password =
  plainText :: "string option"
  hash :: "byte list"

text \<open>
  bcrypt is a library, not part of the repository. \<open>generate\<close> is
  \<^verbatim>\<open>bcrypt.GenerateFromPassword\<close> as it answers this call (it draws its salt itself):
  given the password bytes and the cost it returns an error or the encoded hash.
  \<open>compare\<close> is \<^verbatim>\<open>bcrypt.CompareHashAndPassword\<close>: \<open>None\<close> when the password
  fits the hash, otherwise its error.
\<close>

definition password_Set ::
  "(string \<Rightarrow> int \<Rightarrow> error + byte list) \<Rightarrow> password \<Rightarrow> string \<Rightarrow> error option \<times> password"
where
  "password_Set generate p plainTextPassword =
     (case generate plainTextPassword 12 of
        Inl err \<Rightarrow> (Some err, p)
      | Inr h \<Rightarrow> (None, p\<lparr>plainText := Some plainTextPassword, hash := h\<rparr>))"

definition password_Matches ::
  "(byte list \<Rightarrow> string \<Rightarrow> error option) \<Rightarrow> password \<Rightarrow> string \<Rightarrow> bool \<times> error option"
where
  "password_Matches compare p plainTextPassword =
     (case compare (hash p) plainTextPassword of
        Some err \<Rightarrow>
          if err = ErrMismatchedHashAndPassword then (False, None) else (False, Some err)
      | None \<Rightarrow> (True, None))"

definition password_ClearPlainText :: "password \<Rightarrow> password" where
  "password_ClearPlainText p = p\<lparr>plainText := None\<rparr>"

definition password_IsSet :: "password \<Rightarrow> bool" where
  "password_IsSet p = (plainText p \<noteq> None \<or> length (hash p) > 0)"

record User =
  ID :: int
  Username :: string
  PasswordHash :: password
  CreatedAt :: time
  ApprovedAt :: "time option"
  ApprovedBy :: "int option"
  IsAdmin :: bool
  Status :: string

section \<open>user_repository.go\<close>

text \<open>A row of the \<^verbatim>\<open>users\<close> table, with the columns the statements name.\<close>

record user_row =
  u_id :: int
  u_username :: string
  u_password_hash :: "byte list"
  u_created_at :: time
  u_approved_at :: "time option"
  u_approved_by :: "int option"
  u_is_admin :: bool
  u_status :: string

definition user_of_row :: "user_row \<Rightarrow> User" where
  "user_of_row r =
     \<lparr>ID = u_id r, Username = u_username r,
      PasswordHash = \<lparr>plainText = None, hash = u_password_hash r\<rparr>,
      CreatedAt = u_created_at r, ApprovedAt = u_approved_at r,
      ApprovedBy = u_approved_by r, IsAdmin = u_is_admin r, Status = u_status r\<rparr>"

text \<open>
  Modelled from the spec: the schema of the \<^verbatim>\<open>users\<close> table is not under src/; the
  data model says that the approval columns are null until an administrator sets them,
  so a new row has both empty. A violated constraint of that schema is one of the
  faults. The INSERT returns the id and the creation time that the database chose; they
  are inputs of the model, as is the statement's outcome.
\<close>

definition repo_CreateUser ::
  "db_fault \<Rightarrow> int \<Rightarrow> time \<Rightarrow> user_row list \<Rightarrow> User \<Rightarrow> (error option \<times> User) \<times> user_row list"
where
  "repo_CreateUser fault new_id created tbl user =
     (case fault of
        Some err \<Rightarrow> ((Some err, user), tbl)
      | None \<Rightarrow>
          ((None, user\<lparr>ID := new_id, CreatedAt := created\<rparr>),
           tbl @ [\<lparr>u_id = new_id, u_username = Username user,
                   u_password_hash = hash (PasswordHash user),
                   u_created_at = created, u_approved_at = None, u_approved_by = None,
                   u_is_admin = IsAdmin user, u_status = Status user\<rparr>]))"

definition GetUserByUsername ::
  "db_fault \<Rightarrow> user_row list \<Rightarrow> string \<Rightarrow> error + User option"
where
  "GetUserByUsername fault tbl username =
     (case fault of
        Some err \<Rightarrow> if err = ErrNoRows then Inr None else Inl err
      | None \<Rightarrow>
          (case find (\<lambda>r. u_username r = username) tbl of
             None \<Rightarrow> Inr None
           | Some r \<Rightarrow> Inr (Some (user_of_row r))))"

section \<open>The user service\<close>

subsection \<open>strings.TrimSpace\<close>

text \<open>
  \<^verbatim>\<open>strings.TrimSpace\<close> removes every leading and trailing white-space code point, as
  Unicode defines it. A Go string is a byte sequence, so the white-space code points are
  listed by their UTF-8 encodings: the six ASCII ones, U+0085, U+00A0, U+1680,
  U+2000 to U+200A, U+2028, U+2029, U+202F, U+205F and U+3000.
\<close>

definition unicode_space :: "string list" where
  "unicode_space =
     [[CHR 0x09], [CHR 0x0A], [CHR 0x0B], [CHR 0x0C], [CHR 0x0D], [CHR 0x20],
      [CHR 0xC2, CHR 0x85], [CHR 0xC2, CHR 0xA0],
      [CHR 0xE1, CHR 0x9A, CHR 0x80],
      [CHR 0xE2, CHR 0x80, CHR 0x80], [CHR 0xE2, CHR 0x80, CHR 0x81],
      [CHR 0xE2, CHR 0x80, CHR 0x82], [CHR 0xE2, CHR 0x80, CHR 0x83],
      [CHR 0xE2, CHR 0x80, CHR 0x84], [CHR 0xE2, CHR 0x80, CHR 0x85],
      [CHR 0xE2, CHR 0x80, CHR 0x86], [CHR 0xE2, CHR 0x80, CHR 0x87],
      [CHR 0xE2, CHR 0x80, CHR 0x88], [CHR 0xE2, CHR 0x80, CHR 0x89],
      [CHR 0xE2, CHR 0x80, CHR 0x8A],
      [CHR 0xE2, CHR 0x80, CHR 0xA8], [CHR 0xE2, CHR 0x80, CHR 0xA9],
      [CHR 0xE2, CHR 0x80, CHR 0xAF],
      [CHR 0xE2, CHR 0x81, CHR 0x9F],
      [CHR 0xE3, CHR 0x80, CHR 0x80]]"

text \<open>
  \<open>space_width ws s\<close> is the number of bytes of the sequence of \<open>ws\<close> that \<open>s\<close>
  starts with, or 0 when it starts with none.
\<close>

definition space_width :: "string list \<Rightarrow> string \<Rightarrow> nat" where
  "space_width ws s =
     (case find (\<lambda>w. take (length w) s = w) ws of None \<Rightarrow> 0 | Some w \<Rightarrow> length w)"

fun trim_front :: "string list \<Rightarrow> string \<Rightarrow> string" where
  "trim_front ws [] = []"
| "trim_front ws (c # s) =
     (if space_width ws (c # s) = 0 then c # s
      else trim_front ws (drop (space_width ws (c # s) - 1) s))"

definition TrimSpace :: "string \<Rightarrow> string" where
  "TrimSpace s =
     rev (trim_front (map rev unicode_space) (rev (trim_front unicode_space s)))"

subsection \<open>Validation\<close>

definition lower_letters :: string where
  "lower_letters = ''abcdefghijklmnopqrstuvwxyz''"

definition upper_letters :: string where
  "upper_letters = ''ABCDEFGHIJKLMNOPQRSTUVWXYZ''"

definition digits :: string where
  "digits = ''0123456789''"

text \<open>The pattern \<^verbatim>\<open>^[a-zA-Z0-9_-]+$\<close>: one character or more, each of the class.\<close>

definition validUsername_MatchString :: "string \<Rightarrow> bool" where
  "validUsername_MatchString s =
     (s \<noteq> [] \<and> list_all (\<lambda>c. c \<in> set (lower_letters @ upper_letters @ digits @ ''_-'')) s)"

definition validateUsername :: "string \<Rightarrow> error option" where
  "validateUsername username0 =
     (let username = TrimSpace username0 in
      if length username < 3 then Some ErrInvalidUsername
      else if length username > 50 then Some ErrInvalidUsername
      else if \<not> validUsername_MatchString username then Some ErrInvalidUsername
      else None)"

definition validatePassword :: "string \<Rightarrow> error option" where
  "validatePassword password =
     (if length password < 8 then Some ErrInvalidPassword
      else if length password > 100 then Some ErrInvalidPassword
      else
        (let hasUpper = list_ex (\<lambda>c. c \<in> set upper_letters) password;
             hasLower = list_ex (\<lambda>c. c \<in> set lower_letters) password;
             hasDigit = list_ex (\<lambda>c. c \<in> set digits) password
         in if \<not> hasUpper \<or> \<not> hasLower \<or> \<not> hasDigit then Some ErrInvalidPassword
            else None))"

subsection \<open>CreateUser and AuthenticateUser\<close>

text \<open>
  What \<open>CreateUser\<close> observes of the database: the outcome of the SELECT by username,
  the outcome of the INSERT, and the id and creation time the INSERT returns.
\<close>

record create_io =
  cio_select :: db_fault
  cio_insert :: db_fault
  cio_id :: int
  cio_created :: time

definition CreateUser ::
  "(string \<Rightarrow> int \<Rightarrow> error + byte list) \<Rightarrow> create_io \<Rightarrow> user_row list \<Rightarrow> string \<Rightarrow> string
     \<Rightarrow> (error + User) \<times> user_row list"
where
  "CreateUser generate io tbl username password =
     (case validateUsername username of
        Some err \<Rightarrow> (Inl err, tbl)
      | None \<Rightarrow>
     (case validatePassword password of
        Some err \<Rightarrow> (Inl err, tbl)
      | None \<Rightarrow>
     (case GetUserByUsername (cio_select io) tbl username of
        Inl err \<Rightarrow> (Inl err, tbl)
      | Inr (Some existingUser) \<Rightarrow> (Inl ErrUserAlreadyExists, tbl)
      | Inr None \<Rightarrow>
          (let user = \<lparr>ID = 0, Username = username,
                       PasswordHash = \<lparr>plainText = None, hash = []\<rparr>,
                       CreatedAt = 0, ApprovedAt = None, ApprovedBy = None,
                       IsAdmin = False, Status = ''pending''\<rparr>
           in case password_Set generate (PasswordHash user) password of
                (Some err, p) \<Rightarrow> (Inl (ErrWrapped ''failed to hash password'' err), tbl)
              | (None, p) \<Rightarrow>
                  (case repo_CreateUser (cio_insert io) (cio_id io) (cio_created io) tbl
                          (user\<lparr>PasswordHash := p\<rparr>) of
                     ((Some err, user'), tbl') \<Rightarrow> (Inl err, tbl')
                   | ((None, user'), tbl') \<Rightarrow>
                       (Inr (user'\<lparr>PasswordHash :=
                                     password_ClearPlainText (PasswordHash user')\<rparr>),
                        tbl'))))))"

definition AuthenticateUser ::
  "(byte list \<Rightarrow> string \<Rightarrow> error option) \<Rightarrow> db_fault \<Rightarrow> user_row list \<Rightarrow> string \<Rightarrow> string
     \<Rightarrow> error + User"
where
  "AuthenticateUser compare fault tbl username password =
     (case GetUserByUsername fault tbl username of
        Inl err \<Rightarrow> Inl err
      | Inr None \<Rightarrow> Inl ErrUserNotFound
      | Inr (Some user) \<Rightarrow>
          (case password_Matches compare (PasswordHash user) password of
             (matches, Some err) \<Rightarrow> Inl err
           | (matches, None) \<Rightarrow>
               if \<not> matches then Inl ErrUnauthorized
               else if ApprovedAt user = None then Inl ErrUserNotApproved
               else Inr user))"

subsection \<open>ListUsers and ListPendingUsers\<close>

text \<open>
  The service calls the store it was built with; \<open>repo_ListUsers\<close> and
  \<open>repo_ListPendingUsers\<close> are that store's methods, taken with the limit and the
  offset they receive.
\<close>

definition ListUsers :: "(int \<Rightarrow> int \<Rightarrow> 'r) \<Rightarrow> int \<Rightarrow> int \<Rightarrow> 'r" where
  "ListUsers repo_ListUsers limit0 offset0 =
     (let limit1 = (if limit0 \<le> 0 then 10 else limit0);
          limit2 = (if limit1 > 100 then 100 else limit1);
          offset1 = (if offset0 < 0 then 0 else offset0)
      in repo_ListUsers limit2 offset1)"

definition ListPendingUsers :: "(int \<Rightarrow> int \<Rightarrow> 'r) \<Rightarrow> int \<Rightarrow> int \<Rightarrow> 'r" where
  "ListPendingUsers repo_ListPendingUsers limit0 offset0 =
     (let limit1 = (if limit0 \<le> 0 then 10 else limit0);
          limit2 = (if limit1 > 100 then 100 else limit1);
          offset1 = (if offset0 < 0 then 0 else offset0)
      in repo_ListPendingUsers limit2 offset1)"

section \<open>Notions used to state the properties\<close>

text \<open>The rows of the table that belong to one user and one scope.\<close>

definition slot :: "token_row list \<Rightarrow> int \<Rightarrow> string \<Rightarrow> token_row list" where
  "slot tbl userID scope = filter (\<lambda>r. row_scope r = scope \<and> row_user_id r = userID) tbl"

text \<open>The table once the rows of one user and one scope are deleted.\<close>

definition evicted :: "token_row list \<Rightarrow> int \<Rightarrow> string \<Rightarrow> token_row list" where
  "evicted tbl userID scope = filter (\<lambda>r. \<not> (row_scope r = scope \<and> row_user_id r = userID)) tbl"

text \<open>
  The properties hold for every digest function. Where one of them is applied to
  concrete data, \<open>sample_digest\<close> is the digest used: the first 32 bytes of the string,
  filled with zeros. It is not SHA-256.
\<close>

definition sample_digest :: "string \<Rightarrow> array32" where
  "sample_digest s = Abs_array32 (take 32 (map (\<lambda>c. of_nat (of_char c)) s @ replicate 32 0))"

text \<open>The buffer filled with 32 copies of one byte.\<close>

definition block :: "byte \<Rightarrow> array32" where
  "block b = Abs_array32 (replicate 32 b)"

text \<open>
  Sample environments: a clock reading, the 32 equal bytes that the random source
  delivers (or its failure), and the outcome of the INSERT.
\<close>

definition sample_io_A :: issue_io where
  "sample_io_A = \<lparr>io_now = 1000, io_rand = Inr (block 0), io_insert = None\<rparr>"

definition sample_io_B :: issue_io where
  "sample_io_B = \<lparr>io_now = 2000, io_rand = Inr (block 255), io_insert = None\<rparr>"

definition sample_io_C :: issue_io where
  "sample_io_C = \<lparr>io_now = 3000, io_rand = Inr (block 1), io_insert = None\<rparr>"

definition sample_io_norand :: issue_io where
  "sample_io_norand =
     \<lparr>io_now = 3000, io_rand = Inl (ErrOther ''entropy''), io_insert = None\<rparr>"

definition sample_io_noinsert :: issue_io where
  "sample_io_noinsert =
     \<lparr>io_now = 3000, io_rand = Inr (block 1), io_insert = Some (ErrOther ''insert'')\<rparr>"

text \<open>The tokens that \<open>GenerateToken\<close> builds in these environments under \<open>sample_digest\<close>.\<close>

definition sample_token_A :: "int \<Rightarrow> duration \<Rightarrow> string \<Rightarrow> Token" where
  "sample_token_A u ttl s =
     \<lparr>PlainText = replicate 52 (CHR ''A''), Hash = replicate 32 65,
      UserID = u, Expiry = 1000 + ttl, Scope = s\<rparr>"

definition sample_token_B :: "int \<Rightarrow> duration \<Rightarrow> string \<Rightarrow> Token" where
  "sample_token_B u ttl s =
     \<lparr>PlainText = replicate 51 (CHR ''7'') @ ''Q'', Hash = replicate 32 55,
      UserID = u, Expiry = 2000 + ttl, Scope = s\<rparr>"

definition sample_token_C :: "int \<Rightarrow> duration \<Rightarrow> string \<Rightarrow> Token" where
  "sample_token_C u ttl s =
     \<lparr>PlainText = ''AEAQCAIBAEAQCAIBAEAQCAIBAEAQCAIBAEAQCAIBAEAQCAIBAEAQ'',
      Hash = [65, 69, 65, 81, 67, 65, 73, 66, 65, 69, 65, 81, 67, 65, 73, 66,
              65, 69, 65, 81, 67, 65, 73, 66, 65, 69, 65, 81, 67, 65, 73, 66],
      UserID = u, Expiry = 3000 + ttl, Scope = s\<rparr>"

text \<open>
  A session of user 7: a pair is issued, then the refresh token is used once.
\<close>

abbreviation sample_auth :: Token where
  "sample_auth \<equiv> sample_token_A 7 AuthTokenDuration ScopeAuth"

abbreviation sample_refresh :: Token where
  "sample_refresh \<equiv> sample_token_B 7 RefreshTokenDuration ScopeRefresh"

abbreviation sample_auth_again :: Token where
  "sample_auth_again \<equiv> sample_token_C 7 AuthTokenDuration ScopeAuth"

text \<open>A table with one \<open>authentication\<close> row of user 7 that expires at 5000.\<close>

definition sample_rows :: "token_row list" where
  "sample_rows =
     [\<lparr>row_hash = replicate 32 65, row_user_id = 7, row_expiry = 5000, row_scope = ScopeAuth\<rparr>]"

text \<open>
  Stand-ins for bcrypt on the sample data: the hash of a password is its bytes, and a
  hash fits the password with those bytes; an empty hash is malformed. They are not
  bcrypt; the properties hold for every \<open>generate\<close> and \<open>compare\<close>.
\<close>

definition sample_generate :: "string \<Rightarrow> int \<Rightarrow> error + byte list" where
  "sample_generate pw cost = Inr (map (\<lambda>c. of_nat (of_char c)) pw)"

definition sample_compare :: "byte list \<Rightarrow> string \<Rightarrow> error option" where
  "sample_compare h pw =
     (if h = [] then Some (ErrOther ''hash too short'')
      else if h = map (\<lambda>c. of_nat (of_char c)) pw then None
      else Some ErrMismatchedHashAndPassword)"

text \<open>Two users with the password \<open>Pw\<close>: alice is approved, bob is not.\<close>

definition sample_users :: "user_row list" where
  "sample_users =
     [\<lparr>u_id = 1, u_username = ''alice'', u_password_hash = [80, 119], u_created_at = 10,
       u_approved_at = Some 20, u_approved_by = Some 0, u_is_admin = False,
       u_status = ''active''\<rparr>,
      \<lparr>u_id = 2, u_username = ''bob'', u_password_hash = [80, 119], u_created_at = 30,
       u_approved_at = None, u_approved_by = None, u_is_admin = False,
       u_status = ''pending''\<rparr>]"

text \<open>A database that answers both statements of \<open>CreateUser\<close>.\<close>

definition sample_create_io :: create_io where
  "sample_create_io = \<lparr>cio_select = None, cio_insert = None, cio_id = 3, cio_created = 40\<rparr>"

text \<open>
  The row that \<open>CreateUser\<close> inserts for a user name and a password hash: the id and
  the creation time come from the database, the status is \<open>pending\<close>.
\<close>

definition new_row :: "create_io \<Rightarrow> string \<Rightarrow> byte list \<Rightarrow> user_row" where
  "new_row io username h =
     \<lparr>u_id = cio_id io, u_username = username, u_password_hash = h,
      u_created_at = cio_created io, u_approved_at = None, u_approved_by = None,
      u_is_admin = False, u_status = ''pending''\<rparr>"

section \<open>The base-32 encoding\<close>

lemma length_quanta: "length (quanta bs) = (length bs + 4) div 5"
proof (induction bs rule: quanta.induct)
  case 1
  then show ?case by simp
next
  case (2 b bs)
  have "Suc ((length bs - 4 + 4) div 5) = (5 + length bs) div 5" by arith
  with 2 show ?case by simp
qed

lemma length_byte_bits: "length (byte_bits b) = 8"
  by (simp add: byte_bits_def)

lemma length_concat_byte_bits: "length (concat (map byte_bits src)) = 8 * length src"
  by (induction src) (simp_all add: length_byte_bits)

lemma length_EncodeToString: "length (EncodeToString src) = (8 * length src + 4) div 5"
  by (simp add: EncodeToString_def length_quanta length_concat_byte_bits)

lemma foldl_bits_bound:
  "foldl (\<lambda>a b. 2 * a + (if b then 1 else 0)) (a::nat) bs < (a + 1) * 2 ^ length bs"
proof (induction bs arbitrary: a)
  case Nil
  then show ?case by simp
next
  case (Cons b bs)
  have "foldl (\<lambda>a b. 2 * a + (if b then 1 else 0)) (2 * a + (if b then 1 else 0)) bs
          < (2 * a + (if b then 1 else 0) + 1) * 2 ^ length bs"
    by (rule Cons.IH)
  also have "\<dots> \<le> (2 * a + 2) * 2 ^ length bs"
    by (rule mult_le_mono1) simp
  finally show ?case by (simp add: algebra_simps)
qed

lemma bits_val_bound: "bits_val bs < 2 ^ length bs"
  using foldl_bits_bound [of 0 bs] by (simp add: bits_val_def)

lemma bits_val_take5: "bits_val (take 5 bs) < 32"
proof -
  have "bits_val (take 5 bs) < 2 ^ length (take 5 bs)" by (rule bits_val_bound)
  also have "\<dots> \<le> 2 ^ 5" by (rule power_increasing) simp_all
  finally show ?thesis by simp
qed

lemma quanta_bound: "q \<in> set (quanta bs) \<Longrightarrow> q < 32"
proof (induction bs arbitrary: q rule: quanta.induct)
  case 1
  then show ?case by simp
next
  case (2 b bs)
  then show ?case using bits_val_take5 [of "b # bs @ replicate 4 False"] by auto
qed

text \<open>The test vectors of RFC 4648, without their padding.\<close>

lemma EncodeToString_rfc4648:
  "EncodeToString [] = ''''"
  "EncodeToString [0x66] = ''MY''"
  "EncodeToString [0x66, 0x6F] = ''MZXQ''"
  "EncodeToString [0x66, 0x6F, 0x6F] = ''MZXW6''"
  "EncodeToString [0x66, 0x6F, 0x6F, 0x62] = ''MZXW6YQ''"
  "EncodeToString [0x66, 0x6F, 0x6F, 0x62, 0x61] = ''MZXW6YTB''"
  "EncodeToString [0x66, 0x6F, 0x6F, 0x62, 0x61, 0x72] = ''MZXW6YTBOI''"
  by code_simp+

lemma length_encodeStd: "length encodeStd = 32"
  by (simp add: encodeStd_def)

lemma set_EncodeToString: "set (EncodeToString src) \<subseteq> set encodeStd"
  using quanta_bound by (auto simp: EncodeToString_def length_encodeStd)

lemma pad_not_in_encodeStd: "CHR ''='' \<notin> set encodeStd"
  by (simp add: encodeStd_def)

lemma length_Rep_array32: "length (Rep_array32 a) = 32"
  using Rep_array32 [of a] by simp

section \<open>The token generator\<close>

text \<open>
  Claim C6. When the random source fails, \<open>GenerateToken\<close> returns that error and no
  token. Otherwise it returns a token whose plaintext is the base-32 encoding, without
  padding, of the 32 bytes drawn (52 characters of the alphabet, none of them the
  padding character); whose hash is the raw 32-byte digest of that plaintext; whose
  expiry is the clock's reading plus the time to live; and whose user and scope are the
  ones given.
\<close>

theorem C6_GenerateToken:
  "GenerateToken sha now (Inl err) userID ttl scope = Inl err \<and>
   (\<exists>token. GenerateToken sha now (Inr emptyByte) userID ttl scope = Inr token \<and>
      length (Rep_array32 emptyByte) = 32 \<and>
      PlainText token = EncodeToString (Rep_array32 emptyByte) \<and>
      length (PlainText token) = 52 \<and>
      set (PlainText token) \<subseteq> set encodeStd \<and>
      CHR ''='' \<notin> set (PlainText token) \<and>
      Hash token = Rep_array32 (sha (PlainText token)) \<and>
      length (Hash token) = 32 \<and>
      Expiry token = now + ttl \<and>
      UserID token = userID \<and>
      Scope token = scope)"
proof -
  let ?plain = "EncodeToString (Rep_array32 emptyByte)"
  have len: "length ?plain = 52"
    by (simp add: length_EncodeToString length_Rep_array32)
  have sub: "set ?plain \<subseteq> set encodeStd"
    by (rule set_EncodeToString)
  have nopad: "CHR ''='' \<notin> set ?plain"
    using sub pad_not_in_encodeStd by blast
  show ?thesis
    using len sub nopad by (simp add: GenerateToken_def Let_def length_Rep_array32)
qed

section \<open>The repository\<close>

lemma DeleteAll_None: "DeleteAllTokensForUser None tbl u s = (None, evicted tbl u s)"
  by (simp add: DeleteAllTokensForUser_def evicted_def)

lemma DeleteAll_Some: "DeleteAllTokensForUser (Some e) tbl u s = (Some e, tbl)"
  by (simp add: DeleteAllTokensForUser_def)

lemma slot_evicted: "slot (evicted tbl u s) u s = []"
  by (simp add: slot_def evicted_def)

lemma slot_snoc:
  "slot (tbl @ [r]) u s = slot tbl u s @ (if row_scope r = s \<and> row_user_id r = u then [r] else [])"
  by (simp add: slot_def)

lemma GenerateToken_fields:
  "GenerateToken sha now rnd u ttl s = Inr token \<Longrightarrow>
     UserID token = u \<and> Scope token = s \<and> Expiry token = now + ttl \<and>
     Hash token = Rep_array32 (sha (PlainText token))"
  by (auto simp: GenerateToken_def Let_def split: sum.splits)

lemma CreateNewToken_generate_fails:
  "GenerateToken sha (io_now io) (io_rand io) u ttl s = Inl e \<Longrightarrow>
     CreateNewToken sha io tbl u ttl s = (Inl e, tbl)"
  by (simp add: CreateNewToken_def)

lemma CreateNewToken_insert_fault:
  "GenerateToken sha (io_now io) (io_rand io) u ttl s = Inr token \<Longrightarrow> io_insert io = Some e \<Longrightarrow>
     CreateNewToken sha io tbl u ttl s = (Inl e, tbl)"
  by (simp add: CreateNewToken_def Insert_def)

lemma CreateNewToken_conflict:
  "GenerateToken sha (io_now io) (io_rand io) u ttl s = Inr token \<Longrightarrow> io_insert io = None \<Longrightarrow>
   Hash token \<in> set (map row_hash tbl) \<Longrightarrow>
     CreateNewToken sha io tbl u ttl s = (Inl ErrConflict, tbl)"
  by (simp add: CreateNewToken_def Insert_def)

lemma CreateNewToken_inserted:
  "GenerateToken sha (io_now io) (io_rand io) u ttl s = Inr token \<Longrightarrow> io_insert io = None \<Longrightarrow>
   Hash token \<notin> set (map row_hash tbl) \<Longrightarrow>
     CreateNewToken sha io tbl u ttl s = (Inr token, tbl @ [row_of_token token])"
  by (simp add: CreateNewToken_def Insert_def)

text \<open>
  Every outcome of \<open>CreateNewToken\<close>: an error and the table as it was, or the token
  and the table with its row appended.
\<close>

lemma CreateNewToken_outcome:
  assumes "CreateNewToken sha io tbl u ttl s = (res, tbl')"
  shows "(\<exists>e. res = Inl e \<and> tbl' = tbl) \<or>
     (\<exists>token. res = Inr token \<and> tbl' = tbl @ [row_of_token token] \<and>
        GenerateToken sha (io_now io) (io_rand io) u ttl s = Inr token \<and>
        io_insert io = None \<and> Hash token \<notin> set (map row_hash tbl))"
proof (cases "GenerateToken sha (io_now io) (io_rand io) u ttl s")
  case (Inl e)
  from assms have "(Inl e, tbl) = (res, tbl')" by (simp add: CreateNewToken_def Inl)
  then show ?thesis by auto
next
  case (Inr token)
  with assms show ?thesis
    by (cases "io_insert io") (auto simp: CreateNewToken_def Insert_def split: if_splits)
qed

lemma row_of_token_fields:
  "row_hash (row_of_token t) = Hash t" "row_user_id (row_of_token t) = UserID t"
  "row_expiry (row_of_token t) = Expiry t" "row_scope (row_of_token t) = Scope t"
  by (simp_all add: row_of_token_def)

lemma CreateAuthToken_success_slot:
  assumes "CreateAuthToken sha del io tbl u ttl = (Inr token, tbl')"
  shows "slot tbl' u ScopeAuth = [row_of_token token]"
proof -
  from assms have del: "del = None"
    by (cases del) (simp_all add: CreateAuthToken_def DeleteAll_Some)
  obtain res t2 where c: "CreateNewToken sha io (evicted tbl u ScopeAuth) u ttl ScopeAuth = (res, t2)"
    by (cases "CreateNewToken sha io (evicted tbl u ScopeAuth) u ttl ScopeAuth")
  with assms del have r: "res = Inr token" "t2 = tbl'"
    by (auto simp: CreateAuthToken_def DeleteAll_None split: sum.splits)
  from CreateNewToken_outcome [OF c] r
  have t: "tbl' = evicted tbl u ScopeAuth @ [row_of_token token]"
    and g: "GenerateToken sha (io_now io) (io_rand io) u ttl ScopeAuth = Inr token"
    by auto
  from GenerateToken_fields [OF g] show ?thesis
    by (simp add: t slot_snoc slot_evicted row_of_token_fields)
qed

subsection \<open>Evaluation on the sample data\<close>

lemma Rep_block: "Rep_array32 (block b) = replicate 32 b"
  by (simp add: block_def Abs_array32_inverse)

lemma Rep_sample_digest:
  "Rep_array32 (sample_digest s) = take 32 (map (\<lambda>c. of_nat (of_char c)) s @ replicate 32 0)"
  by (simp add: sample_digest_def Abs_array32_inverse)

lemma Encode_block_0: "EncodeToString (replicate 32 0) = replicate 52 (CHR ''A'')"
  by code_simp

lemma Encode_block_255:
  "EncodeToString (replicate 32 255) = replicate 51 (CHR ''7'') @ ''Q''"
  by code_simp

lemma digest_block_0: "Rep_array32 (sample_digest (replicate 52 (CHR ''A''))) = replicate 32 65"
  unfolding Rep_sample_digest by code_simp

lemma digest_block_255:
  "Rep_array32 (sample_digest (replicate 51 (CHR ''7'') @ ''Q'')) = replicate 32 55"
  unfolding Rep_sample_digest by code_simp

lemma sample_token_0:
  "GenerateToken sample_digest now (Inr (block 0)) u ttl s =
     Inr \<lparr>PlainText = replicate 52 (CHR ''A''), Hash = replicate 32 65,
          UserID = u, Expiry = now + ttl, Scope = s\<rparr>"
  by (simp add: GenerateToken_def Rep_block Encode_block_0 digest_block_0 Let_def)

lemma sample_token_255:
  "GenerateToken sample_digest now (Inr (block 255)) u ttl s =
     Inr \<lparr>PlainText = replicate 51 (CHR ''7'') @ ''Q'', Hash = replicate 32 55,
          UserID = u, Expiry = now + ttl, Scope = s\<rparr>"
  by (simp add: GenerateToken_def Rep_block Encode_block_255 digest_block_255 Let_def)

lemma issue_A:
  "Hash (sample_token_A u ttl s) \<notin> set (map row_hash tbl) \<Longrightarrow>
   CreateNewToken sample_digest sample_io_A tbl u ttl s =
     (Inr (sample_token_A u ttl s), tbl @ [row_of_token (sample_token_A u ttl s)])"
  by (rule CreateNewToken_inserted)
     (simp_all add: sample_io_A_def sample_token_0 sample_token_A_def)

lemma issue_B:
  "Hash (sample_token_B u ttl s) \<notin> set (map row_hash tbl) \<Longrightarrow>
   CreateNewToken sample_digest sample_io_B tbl u ttl s =
     (Inr (sample_token_B u ttl s), tbl @ [row_of_token (sample_token_B u ttl s)])"
  by (rule CreateNewToken_inserted)
     (simp_all add: sample_io_B_def sample_token_255 sample_token_B_def)

section \<open>Issuing with eviction\<close>

lemma CreateAuthToken_delete_fails:
  "CreateAuthToken sha (Some e) io tbl u ttl = (Inl e, tbl)"
  by (simp add: CreateAuthToken_def DeleteAll_Some)

lemma CreateAuthToken_issue:
  "CreateAuthToken sha None io tbl u ttl =
     CreateNewToken sha io (evicted tbl u ScopeAuth) u ttl ScopeAuth"
  by (simp add: CreateAuthToken_def DeleteAll_None split: prod.splits sum.splits)

lemma CreateDeployToken_delete_fails:
  "CreateDeployToken sha (Some e) io tbl u = (Inl e, tbl)"
  by (simp add: CreateDeployToken_def DeleteAll_Some)

lemma CreateDeployToken_issue:
  "CreateDeployToken sha None io tbl u =
     CreateNewToken sha io (evicted tbl u ScopeDeploy) u DeployTokenDuration ScopeDeploy"
  by (simp add: CreateDeployToken_def DeleteAll_None split: prod.splits sum.splits)

lemma GenerateToken_rand_fails:
  "GenerateToken sha now (Inl e) u ttl s = Inl e"
  by (simp add: GenerateToken_def)

lemma GenerateToken_rand_ok:
  "\<exists>token. GenerateToken sha now (Inr bs) u ttl s = Inr token \<and>
     Hash token = Rep_array32 (sha (EncodeToString (Rep_array32 bs)))"
  by (simp add: GenerateToken_def Let_def)

lemma CreateNewToken_rand_fails:
  "io_rand io = Inl e \<Longrightarrow> CreateNewToken sha io tbl u ttl s = (Inl e, tbl)"
  by (simp add: CreateNewToken_def GenerateToken_rand_fails)

lemma CreateNewToken_insert_fails:
  "io_rand io = Inr bs \<Longrightarrow> io_insert io = Some e \<Longrightarrow>
     CreateNewToken sha io tbl u ttl s = (Inl e, tbl)"
  using GenerateToken_rand_ok [of sha "io_now io" bs u ttl s]
  by (auto simp: CreateNewToken_insert_fault)

lemma CreateNewToken_hash_taken:
  assumes "io_rand io = Inr bs" "io_insert io = None"
    and "Rep_array32 (sha (EncodeToString (Rep_array32 bs))) \<in> set (map row_hash tbl)"
  shows "CreateNewToken sha io tbl u ttl s = (Inl ErrConflict, tbl)"
proof -
  obtain token where g: "GenerateToken sha (io_now io) (io_rand io) u ttl s = Inr token"
    and h: "Hash token = Rep_array32 (sha (EncodeToString (Rep_array32 bs)))"
    using GenerateToken_rand_ok [of sha "io_now io" bs u ttl s] assms(1) by auto
  from assms(3) h have "Hash token \<in> set (map row_hash tbl)" by simp
  from CreateNewToken_conflict [OF g assms(2) this] show ?thesis .
qed

lemma CreateNewToken_succeeds:
  assumes "io_rand io = Inr bs" "io_insert io = None"
    and "Rep_array32 (sha (EncodeToString (Rep_array32 bs))) \<notin> set (map row_hash tbl)"
  shows "\<exists>token. CreateNewToken sha io tbl u ttl s = (Inr token, tbl @ [row_of_token token])"
proof -
  obtain token where g: "GenerateToken sha (io_now io) (io_rand io) u ttl s = Inr token"
    and h: "Hash token = Rep_array32 (sha (EncodeToString (Rep_array32 bs)))"
    using GenerateToken_rand_ok [of sha "io_now io" bs u ttl s] assms(1) by auto
  from assms(3) h have "Hash token \<notin> set (map row_hash tbl)" by simp
  from CreateNewToken_inserted [OF g assms(2) this] show ?thesis by blast
qed

lemma CreateNewToken_success_shape:
  assumes "CreateNewToken sha io tbl u ttl s = (Inr token, tbl')"
  shows "tbl' = tbl @ [row_of_token token] \<and> UserID token = u \<and> Scope token = s \<and>
         Expiry token = io_now io + ttl \<and> Hash token \<notin> set (map row_hash tbl) \<and>
         Hash token = Rep_array32 (sha (PlainText token))"
  using CreateNewToken_outcome [OF assms] by (auto dest: GenerateToken_fields)

lemma CreateDeployToken_success_slot:
  assumes "CreateDeployToken sha del io tbl u = (Inr token, tbl')"
  shows "slot tbl' u ScopeDeploy = [row_of_token token]"
proof -
  from assms have del: "del = None"
    by (cases del) (simp_all add: CreateDeployToken_delete_fails)
  from assms del CreateNewToken_success_shape
    [of sha io "evicted tbl u ScopeDeploy" u DeployTokenDuration ScopeDeploy token tbl']
  show ?thesis
    by (simp add: CreateDeployToken_issue slot_snoc slot_evicted row_of_token_fields)
qed

text \<open>
  Claim C3. \<open>CreateAuthToken\<close> deletes the user's rows of scope \<open>authentication\<close>
  first: when the deletion fails it returns that error and the table is unchanged;
  otherwise it is \<open>CreateNewToken\<close> on the table without those rows, so a failure
  of the random source or of the INSERT (a fault, or a hash that is taken) is returned as
  it is, and a success returns the token and appends its row. \<open>CreateDeployToken\<close> does the same for scope
  \<open>deployment\<close> with its fixed duration. After a successful call the user has exactly
  one row of the scope, the new one; so of two calls for the same user, a successful
  second one leaves exactly one \<open>authentication\<close> row.
\<close>

theorem C3_evict_then_issue:
  "CreateAuthToken sha (Some e) io tbl u ttl = (Inl e, tbl) \<and>
   CreateAuthToken sha None io tbl u ttl =
     CreateNewToken sha io (evicted tbl u ScopeAuth) u ttl ScopeAuth \<and>
   (io_rand io = Inl e \<longrightarrow>
      CreateAuthToken sha None io tbl u ttl = (Inl e, evicted tbl u ScopeAuth)) \<and>
   (io_rand io = Inr bs \<and> io_insert io = Some e \<longrightarrow>
      CreateAuthToken sha None io tbl u ttl = (Inl e, evicted tbl u ScopeAuth)) \<and>
   (io_rand io = Inr bs \<and> io_insert io = None \<and>
    Rep_array32 (sha (EncodeToString (Rep_array32 bs)))
      \<in> set (map row_hash (evicted tbl u ScopeAuth)) \<longrightarrow>
      CreateAuthToken sha None io tbl u ttl = (Inl ErrConflict, evicted tbl u ScopeAuth)) \<and>
   (io_rand io = Inr bs \<and> io_insert io = None \<and>
    Rep_array32 (sha (EncodeToString (Rep_array32 bs)))
      \<notin> set (map row_hash (evicted tbl u ScopeAuth)) \<longrightarrow>
      (\<exists>token. CreateAuthToken sha None io tbl u ttl =
         (Inr token, evicted tbl u ScopeAuth @ [row_of_token token]))) \<and>
   (CreateAuthToken sha del io tbl u ttl = (Inr token, tbl') \<longrightarrow>
      tbl' = evicted tbl u ScopeAuth @ [row_of_token token] \<and>
      slot tbl' u ScopeAuth = [row_of_token token] \<and>
      UserID token = u \<and> Scope token = ScopeAuth \<and> Expiry token = io_now io + ttl) \<and>
   CreateDeployToken sha (Some e) io tbl u = (Inl e, tbl) \<and>
   CreateDeployToken sha None io tbl u =
     CreateNewToken sha io (evicted tbl u ScopeDeploy) u DeployTokenDuration ScopeDeploy \<and>
   (io_rand io = Inl e \<longrightarrow>
      CreateDeployToken sha None io tbl u = (Inl e, evicted tbl u ScopeDeploy)) \<and>
   (io_rand io = Inr bs \<and> io_insert io = Some e \<longrightarrow>
      CreateDeployToken sha None io tbl u = (Inl e, evicted tbl u ScopeDeploy)) \<and>
   (io_rand io = Inr bs \<and> io_insert io = None \<and>
    Rep_array32 (sha (EncodeToString (Rep_array32 bs)))
      \<in> set (map row_hash (evicted tbl u ScopeDeploy)) \<longrightarrow>
      CreateDeployToken sha None io tbl u = (Inl ErrConflict, evicted tbl u ScopeDeploy)) \<and>
   (io_rand io = Inr bs \<and> io_insert io = None \<and>
    Rep_array32 (sha (EncodeToString (Rep_array32 bs)))
      \<notin> set (map row_hash (evicted tbl u ScopeDeploy)) \<longrightarrow>
      (\<exists>token. CreateDeployToken sha None io tbl u =
         (Inr token, evicted tbl u ScopeDeploy @ [row_of_token token]))) \<and>
   (CreateDeployToken sha del io tbl u = (Inr token, tbl') \<longrightarrow>
      tbl' = evicted tbl u ScopeDeploy @ [row_of_token token] \<and>
      slot tbl' u ScopeDeploy = [row_of_token token] \<and>
      UserID token = u \<and> Scope token = ScopeDeploy \<and>
      Expiry token = io_now io + DeployTokenDuration) \<and>
   (CreateAuthToken sha del_a io_a tbl u ttl_a = (res_a, tbl_a) \<and>
    CreateAuthToken sha del_b io_b tbl_a u ttl_b = (Inr token_b, tbl_b) \<longrightarrow>
      slot tbl_b u ScopeAuth = [row_of_token token_b] \<and> length (slot tbl_b u ScopeAuth) = 1)"
proof -
  have a6: "tbl' = evicted tbl u ScopeAuth @ [row_of_token token] \<and>
      slot tbl' u ScopeAuth = [row_of_token token] \<and>
      UserID token = u \<and> Scope token = ScopeAuth \<and> Expiry token = io_now io + ttl"
    if h: "CreateAuthToken sha del io tbl u ttl = (Inr token, tbl')"
  proof -
    from h have del: "del = None"
      by (cases del) (simp_all add: CreateAuthToken_delete_fails)
    from h del CreateNewToken_success_shape
      [of sha io "evicted tbl u ScopeAuth" u ttl ScopeAuth token tbl']
    show ?thesis
      using CreateAuthToken_success_slot [OF h] by (simp add: CreateAuthToken_issue)
  qed
  have d6: "tbl' = evicted tbl u ScopeDeploy @ [row_of_token token] \<and>
      slot tbl' u ScopeDeploy = [row_of_token token] \<and>
      UserID token = u \<and> Scope token = ScopeDeploy \<and>
      Expiry token = io_now io + DeployTokenDuration"
    if h: "CreateDeployToken sha del io tbl u = (Inr token, tbl')"
  proof -
    from h have del: "del = None"
      by (cases del) (simp_all add: CreateDeployToken_delete_fails)
    from h del CreateNewToken_success_shape
      [of sha io "evicted tbl u ScopeDeploy" u DeployTokenDuration ScopeDeploy token tbl']
    show ?thesis
      using CreateDeployToken_success_slot [OF h] by (simp add: CreateDeployToken_issue)
  qed
  have twice: "slot tbl_b u ScopeAuth = [row_of_token token_b] \<and> length (slot tbl_b u ScopeAuth) = 1"
    if "CreateAuthToken sha del_b io_b tbl_a u ttl_b = (Inr token_b, tbl_b)"
    using CreateAuthToken_success_slot [OF that] by simp
  have a2: "CreateAuthToken sha None io tbl u ttl = (Inl e, evicted tbl u ScopeAuth)"
    if "io_rand io = Inl e"
    unfolding CreateAuthToken_issue using that by (rule CreateNewToken_rand_fails)
  have a3: "CreateAuthToken sha None io tbl u ttl = (Inl e, evicted tbl u ScopeAuth)"
    if "io_rand io = Inr bs" "io_insert io = Some e"
    unfolding CreateAuthToken_issue using that by (rule CreateNewToken_insert_fails)
  have a4: "CreateAuthToken sha None io tbl u ttl = (Inl ErrConflict, evicted tbl u ScopeAuth)"
    if "io_rand io = Inr bs" "io_insert io = None"
      "Rep_array32 (sha (EncodeToString (Rep_array32 bs)))
         \<in> set (map row_hash (evicted tbl u ScopeAuth))"
    unfolding CreateAuthToken_issue using that by (rule CreateNewToken_hash_taken)
  have a5: "\<exists>token. CreateAuthToken sha None io tbl u ttl =
         (Inr token, evicted tbl u ScopeAuth @ [row_of_token token])"
    if "io_rand io = Inr bs" "io_insert io = None"
      "Rep_array32 (sha (EncodeToString (Rep_array32 bs)))
         \<notin> set (map row_hash (evicted tbl u ScopeAuth))"
    unfolding CreateAuthToken_issue using that by (rule CreateNewToken_succeeds)
  have d2: "CreateDeployToken sha None io tbl u = (Inl e, evicted tbl u ScopeDeploy)"
    if "io_rand io = Inl e"
    unfolding CreateDeployToken_issue using that by (rule CreateNewToken_rand_fails)
  have d3: "CreateDeployToken sha None io tbl u = (Inl e, evicted tbl u ScopeDeploy)"
    if "io_rand io = Inr bs" "io_insert io = Some e"
    unfolding CreateDeployToken_issue using that by (rule CreateNewToken_insert_fails)
  have d4: "CreateDeployToken sha None io tbl u = (Inl ErrConflict, evicted tbl u ScopeDeploy)"
    if "io_rand io = Inr bs" "io_insert io = None"
      "Rep_array32 (sha (EncodeToString (Rep_array32 bs)))
         \<in> set (map row_hash (evicted tbl u ScopeDeploy))"
    unfolding CreateDeployToken_issue using that by (rule CreateNewToken_hash_taken)
  have d5: "\<exists>token. CreateDeployToken sha None io tbl u =
         (Inr token, evicted tbl u ScopeDeploy @ [row_of_token token])"
    if "io_rand io = Inr bs" "io_insert io = None"
      "Rep_array32 (sha (EncodeToString (Rep_array32 bs)))
         \<notin> set (map row_hash (evicted tbl u ScopeDeploy))"
    unfolding CreateDeployToken_issue using that by (rule CreateNewToken_succeeds)
  note a1 = CreateAuthToken_delete_fails [of sha e io tbl u ttl]
    and a0 = CreateAuthToken_issue [of sha io tbl u ttl]
    and d1 = CreateDeployToken_delete_fails [of sha e io tbl u]
    and d0 = CreateDeployToken_issue [of sha io tbl u]
  show ?thesis
    apply (intro conjI)
                  apply (rule a1)
                 apply (rule a0)
                apply (rule impI, rule a2, assumption)
               apply (rule impI, elim conjE, rule a3, assumption+)
              apply (rule impI, elim conjE, rule a4, assumption+)
             apply (rule impI, elim conjE, rule a5, assumption+)
            apply (rule impI, rule a6, assumption)
           apply (rule d1)
          apply (rule d0)
         apply (rule impI, rule d2, assumption)
        apply (rule impI, elim conjE, rule d3, assumption+)
       apply (rule impI, elim conjE, rule d4, assumption+)
      apply (rule impI, elim conjE, rule d5, assumption+)
     apply (rule impI, rule d6, assumption)
    apply (rule impI, elim conjE, rule twice, assumption)
    done
qed

lemma sample_issue_first:
  "CreateAuthToken sample_digest None sample_io_A [] 7 60 =
     (Inr (sample_token_A 7 60 ScopeAuth), [row_of_token (sample_token_A 7 60 ScopeAuth)])"
proof -
  have "evicted [] 7 ScopeAuth = []"
    by (simp add: evicted_def)
  then show ?thesis
    using issue_A [of 7 60 ScopeAuth "[]"] by (simp add: CreateAuthToken_issue)
qed

lemma sample_issue_second:
  "CreateAuthToken sample_digest None sample_io_B
     [row_of_token (sample_token_A 7 60 ScopeAuth)] 7 60 =
     (Inr (sample_token_B 7 60 ScopeAuth), [row_of_token (sample_token_B 7 60 ScopeAuth)])"
proof -
  have "evicted [row_of_token (sample_token_A 7 60 ScopeAuth)] 7 ScopeAuth = []"
    by (simp add: evicted_def row_of_token_def sample_token_A_def)
  then show ?thesis
    using issue_B [of 7 60 ScopeAuth "[]"] by (simp add: CreateAuthToken_issue)
qed

theorem C3_evict_then_issue_witness:
  "CreateAuthToken sample_digest None sample_io_norand [] 7 60 = (Inl (ErrOther ''entropy''), []) \<and>
   CreateAuthToken sample_digest None sample_io_A [] 7 60 =
     (Inr (sample_token_A 7 60 ScopeAuth), [row_of_token (sample_token_A 7 60 ScopeAuth)]) \<and>
   CreateAuthToken sample_digest None sample_io_B [row_of_token (sample_token_A 7 60 ScopeAuth)] 7 60 =
     (Inr (sample_token_B 7 60 ScopeAuth), [row_of_token (sample_token_B 7 60 ScopeAuth)]) \<and>
   slot [row_of_token (sample_token_B 7 60 ScopeAuth)] 7 ScopeAuth = [row_of_token (sample_token_B 7 60 ScopeAuth)] \<and>
   length (slot [row_of_token (sample_token_B 7 60 ScopeAuth)] 7 ScopeAuth) = 1"
proof -
  have e0: "evicted [] 7 ScopeAuth = []"
    by (simp add: evicted_def)
  note r1 = sample_issue_first and r2 = sample_issue_second
  have r0: "io_rand sample_io_norand = Inl (ErrOther ''entropy'')"
    by (simp add: sample_io_norand_def)
  note inst = C3_evict_then_issue [where sha = sample_digest and io = sample_io_norand
        and tbl = "[]" and u = 7 and ttl = 60 and e = "ErrOther ''entropy''"
        and bs = "block 0" and del = None and token = "sample_token_B 7 60 ScopeAuth"
        and tbl' = "[]"
        and io_a = sample_io_A and del_a = None and ttl_a = 60
        and res_a = "Inr (sample_token_A 7 60 ScopeAuth)"
        and tbl_a = "[row_of_token (sample_token_A 7 60 ScopeAuth)]"
        and del_b = None and io_b = sample_io_B and ttl_b = 60
        and token_b = "sample_token_B 7 60 ScopeAuth"
        and tbl_b = "[row_of_token (sample_token_B 7 60 ScopeAuth)]"]
  from inst have "io_rand sample_io_norand = Inl (ErrOther ''entropy'') \<longrightarrow>
      CreateAuthToken sample_digest None sample_io_norand [] 7 60 =
        (Inl (ErrOther ''entropy''), evicted [] 7 ScopeAuth)"
    by (elim conjE)
  with r0 e0 have n: "CreateAuthToken sample_digest None sample_io_norand [] 7 60 =
      (Inl (ErrOther ''entropy''), [])"
    by simp
  from inst have "CreateAuthToken sample_digest None sample_io_A [] 7 60 =
        (Inr (sample_token_A 7 60 ScopeAuth), [row_of_token (sample_token_A 7 60 ScopeAuth)]) \<and>
      CreateAuthToken sample_digest None sample_io_B
        [row_of_token (sample_token_A 7 60 ScopeAuth)] 7 60 =
        (Inr (sample_token_B 7 60 ScopeAuth), [row_of_token (sample_token_B 7 60 ScopeAuth)])
      \<longrightarrow>
      slot [row_of_token (sample_token_B 7 60 ScopeAuth)] 7 ScopeAuth =
        [row_of_token (sample_token_B 7 60 ScopeAuth)] \<and>
      length (slot [row_of_token (sample_token_B 7 60 ScopeAuth)] 7 ScopeAuth) = 1"
    by (elim conjE)
  with r1 r2 have s: "slot [row_of_token (sample_token_B 7 60 ScopeAuth)] 7 ScopeAuth =
        [row_of_token (sample_token_B 7 60 ScopeAuth)] \<and>
      length (slot [row_of_token (sample_token_B 7 60 ScopeAuth)] 7 ScopeAuth) = 1"
    by simp
  from n r1 r2 s show ?thesis by blast
qed

section \<open>Validation of a token\<close>

lemma GetByHash_absent:
  "h \<notin> set (map row_hash tbl) \<Longrightarrow> GetByHash None tbl h = Inl ErrNoRows"
proof -
  assume "h \<notin> set (map row_hash tbl)"
  then have "find (\<lambda>r. row_hash r = h) tbl = None"
    by (auto simp: find_None_iff)
  then show ?thesis by (simp add: GetByHash_def)
qed

lemma GetByHash_found:
  "find (\<lambda>r. row_hash r = h) tbl = Some r \<Longrightarrow> GetByHash None tbl h = Inr (token_of_row r)"
  by (simp add: GetByHash_def)

lemma GetByHash_fault: "GetByHash (Some e) tbl h = Inl e"
  by (simp add: GetByHash_def)

lemma token_of_row_fields:
  "PlainText (token_of_row r) = []" "Hash (token_of_row r) = row_hash r"
  "UserID (token_of_row r) = row_user_id r" "Expiry (token_of_row r) = row_expiry r"
  "Scope (token_of_row r) = row_scope r"
  by (simp_all add: token_of_row_def)

text \<open>
  Claim C2. \<open>ValidateToken\<close> looks the digest of the plaintext up and checks, in this
  order: no row with that hash gives \<open>ErrTokenNotFound\<close>; a row whose expiry is before
  the clock's reading gives \<open>ErrTokenExpired\<close>, whatever its scope; an unexpired row of
  another scope gives \<open>ErrInvalidScope\<close>; otherwise the token read from the row is
  returned. The row is the first one with that hash (the only one, under the table's
  constraint). A lookup that fails in the database is reported as \<open>ErrTokenNotFound\<close>
  too. The three errors are different values.
\<close>

theorem C2_ValidateToken_checks:
  "(Rep_array32 (sha p) \<notin> set (map row_hash tbl) \<longrightarrow>
      ValidateToken sha None now tbl p s = Inl ErrTokenNotFound) \<and>
   (find (\<lambda>r. row_hash r = Rep_array32 (sha p)) tbl = Some r \<and> row_expiry r < now \<longrightarrow>
      ValidateToken sha None now tbl p s = Inl ErrTokenExpired) \<and>
   (find (\<lambda>r. row_hash r = Rep_array32 (sha p)) tbl = Some r \<and> now \<le> row_expiry r \<and>
    row_scope r \<noteq> s \<longrightarrow>
      ValidateToken sha None now tbl p s = Inl ErrInvalidScope) \<and>
   (find (\<lambda>r. row_hash r = Rep_array32 (sha p)) tbl = Some r \<and> now \<le> row_expiry r \<and>
    row_scope r = s \<longrightarrow>
      ValidateToken sha None now tbl p s = Inr (token_of_row r)) \<and>
   ValidateToken sha (Some e) now tbl p s = Inl ErrTokenNotFound \<and>
   ErrTokenNotFound \<noteq> ErrTokenExpired \<and> ErrTokenNotFound \<noteq> ErrInvalidScope \<and>
   ErrTokenExpired \<noteq> ErrInvalidScope"
  by (auto simp: ValidateToken_def Let_def GetByHash_absent GetByHash_found GetByHash_fault
      token_of_row_fields)

lemma sample_plain_A: "Rep_array32 (sample_digest (replicate 52 (CHR ''A''))) = replicate 32 65"
  by (rule digest_block_0)

theorem C2_ValidateToken_checks_witness:
  "ValidateToken sample_digest None 4000 [] (replicate 52 (CHR ''A'')) ScopeAuth = Inl ErrTokenNotFound \<and>
   ValidateToken sample_digest None 6000 sample_rows (replicate 52 (CHR ''A'')) ScopeAuth = Inl ErrTokenExpired \<and>
   ValidateToken sample_digest None 6000 sample_rows (replicate 52 (CHR ''A'')) ScopeDeploy = Inl ErrTokenExpired \<and>
   ValidateToken sample_digest None 4000 sample_rows (replicate 52 (CHR ''A'')) ScopeDeploy = Inl ErrInvalidScope \<and>
   ValidateToken sample_digest None 4000 sample_rows (replicate 52 (CHR ''A'')) ScopeAuth =
     Inr (token_of_row (hd sample_rows))"
proof -
  let ?p = "replicate 52 (CHR ''A'')"
  let ?r = "hd sample_rows"
  have f: "find (\<lambda>r. row_hash r = Rep_array32 (sample_digest ?p)) sample_rows = Some ?r"
    by (simp add: digest_block_0 sample_rows_def)
  have r: "row_expiry ?r = 5000" "row_scope ?r = ScopeAuth" "ScopeAuth \<noteq> ScopeDeploy"
    by (simp_all add: sample_rows_def ScopeAuth_def ScopeDeploy_def)
  have "ValidateToken sample_digest None 4000 [] ?p ScopeAuth = Inl ErrTokenNotFound"
    using C2_ValidateToken_checks [where sha = sample_digest and p = ?p and tbl = "[]"
        and now = 4000 and s = ScopeAuth and r = ?r and e = ErrNoRows]
    by simp
  moreover have "ValidateToken sample_digest None 6000 sample_rows ?p ScopeAuth = Inl ErrTokenExpired"
    using f r C2_ValidateToken_checks [where sha = sample_digest and p = ?p and tbl = sample_rows
        and now = 6000 and s = ScopeAuth and r = ?r and e = ErrNoRows]
    by simp
  moreover have "ValidateToken sample_digest None 6000 sample_rows ?p ScopeDeploy = Inl ErrTokenExpired"
    using f r C2_ValidateToken_checks [where sha = sample_digest and p = ?p and tbl = sample_rows
        and now = 6000 and s = ScopeDeploy and r = ?r and e = ErrNoRows]
    by simp
  moreover have "ValidateToken sample_digest None 4000 sample_rows ?p ScopeDeploy = Inl ErrInvalidScope"
    using f r C2_ValidateToken_checks [where sha = sample_digest and p = ?p and tbl = sample_rows
        and now = 4000 and s = ScopeDeploy and r = ?r and e = ErrNoRows]
    by simp
  moreover have "ValidateToken sample_digest None 4000 sample_rows ?p ScopeAuth = Inr (token_of_row ?r)"
    using f r C2_ValidateToken_checks [where sha = sample_digest and p = ?p and tbl = sample_rows
        and now = 4000 and s = ScopeAuth and r = ?r and e = ErrNoRows]
    by simp
  ultimately show ?thesis by blast
qed

section \<open>Refreshing\<close>

subsection \<open>More sample data\<close>

lemma Encode_block_1:
  "EncodeToString (replicate 32 1) = ''AEAQCAIBAEAQCAIBAEAQCAIBAEAQCAIBAEAQCAIBAEAQCAIBAEAQ''"
  by code_simp

lemma digest_block_1:
  "Rep_array32 (sample_digest ''AEAQCAIBAEAQCAIBAEAQCAIBAEAQCAIBAEAQCAIBAEAQCAIBAEAQ'') =
     [65, 69, 65, 81, 67, 65, 73, 66, 65, 69, 65, 81, 67, 65, 73, 66,
      65, 69, 65, 81, 67, 65, 73, 66, 65, 69, 65, 81, 67, 65, 73, 66]"
  unfolding Rep_sample_digest by code_simp

lemma sample_token_1:
  "GenerateToken sample_digest 3000 (Inr (block 1)) u ttl s = Inr (sample_token_C u ttl s)"
  by (simp add: GenerateToken_def Rep_block Encode_block_1 digest_block_1 Let_def
      sample_token_C_def)

lemma issue_C:
  "Hash (sample_token_C u ttl s) \<notin> set (map row_hash tbl) \<Longrightarrow>
   CreateNewToken sample_digest sample_io_C tbl u ttl s =
     (Inr (sample_token_C u ttl s), tbl @ [row_of_token (sample_token_C u ttl s)])"
  by (rule CreateNewToken_inserted) (simp_all add: sample_io_C_def sample_token_1)

lemma issue_noinsert:
  "CreateNewToken sample_digest sample_io_noinsert tbl u ttl s = (Inl (ErrOther ''insert''), tbl)"
  by (rule CreateNewToken_insert_fails [where bs = "block 1"]) (simp_all add: sample_io_noinsert_def)

lemma sample_hashes_distinct:
  "Hash (sample_token_A u ttl s) \<noteq> Hash (sample_token_B u' ttl' s')"
  "Hash (sample_token_A u ttl s) \<noteq> Hash (sample_token_C u' ttl' s')"
  "Hash (sample_token_B u ttl s) \<noteq> Hash (sample_token_C u' ttl' s')"
  unfolding sample_token_A_def sample_token_B_def sample_token_C_def Token.simps
  by code_simp+

subsection \<open>Lookups in a table that grows\<close>

lemma find_append_Some: "find P xs = Some r \<Longrightarrow> find P (xs @ ys) = Some r"
  by (induction xs) (auto split: if_splits)

lemma find_Some_hash:
  "find (\<lambda>r. row_hash r = h) tbl = Some r \<Longrightarrow> row_hash r = h \<and> h \<in> set (map row_hash tbl)"
  by (auto simp: find_Some_iff)

lemma ValidateToken_Inr:
  assumes "ValidateToken sha fault now tbl p s = Inr t"
  shows "fault = None \<and>
     (\<exists>r. find (\<lambda>r. row_hash r = Rep_array32 (sha p)) tbl = Some r \<and> t = token_of_row r \<and>
        now \<le> row_expiry r \<and> row_scope r = s)"
proof (cases fault)
  case (Some e)
  with assms show ?thesis by (simp add: ValidateToken_def Let_def GetByHash_fault)
next
  case None
  show ?thesis
  proof (cases "find (\<lambda>r. row_hash r = Rep_array32 (sha p)) tbl")
    case N: None
    with assms None show ?thesis by (simp add: ValidateToken_def Let_def GetByHash_def)
  next
    case (Some r)
    with assms None show ?thesis
      by (auto simp: ValidateToken_def Let_def GetByHash_found token_of_row_fields
          split: if_splits)
  qed
qed

lemma ValidateToken_found:
  "find (\<lambda>r. row_hash r = Rep_array32 (sha p)) tbl = Some r \<Longrightarrow> now \<le> row_expiry r \<Longrightarrow>
   row_scope r = s \<Longrightarrow> ValidateToken sha None now tbl p s = Inr (token_of_row r)"
  by (simp add: ValidateToken_def Let_def GetByHash_found token_of_row_fields)

lemma RefreshAuthToken_issue:
  "ValidateToken sha fault now tbl p ScopeRefresh = Inr rt \<Longrightarrow>
   RefreshAuthToken sha fault now io tbl p =
     CreateNewToken sha io tbl (UserID rt) AuthTokenDuration ScopeAuth"
  by (simp add: RefreshAuthToken_def split: prod.splits sum.splits)

lemma RefreshAuthToken_rejected:
  "ValidateToken sha fault now tbl p ScopeRefresh = Inl e \<Longrightarrow>
   RefreshAuthToken sha fault now io tbl p = (Inl e, tbl)"
  by (simp add: RefreshAuthToken_def)

lemma CreateNewToken_extends:
  "CreateNewToken sha io tbl u ttl s = (res, tbl') \<Longrightarrow> \<exists>new. tbl' = tbl @ new \<and> length new \<le> 1"
  by (drule CreateNewToken_outcome) auto

text \<open>
  Claim C4. Let the plaintext be that of a valid refresh token: \<open>ValidateToken\<close> accepts
  it for scope \<open>refresh\<close> and returns \<open>rt\<close>. When the random source and the INSERT
  work and the new hash is not in the table, \<open>RefreshAuthToken\<close> returns a token of scope
  \<open>authentication\<close> for the user of \<open>rt\<close>, with another hash, and appends its row. A
  token it returns always has that scope and that user. Whatever the call returns, the
  table keeps all its rows, the refresh token is read back by its hash unchanged, and it
  validates again at every instant up to its own expiry.
\<close>

theorem C4_refresh_keeps_refresh_token:
  "(ValidateToken sha fault now tbl p ScopeRefresh = Inr rt \<and>
    io_rand io = Inr bs \<and> io_insert io = None \<and>
    Rep_array32 (sha (EncodeToString (Rep_array32 bs))) \<notin> set (map row_hash tbl) \<longrightarrow>
      (\<exists>a. RefreshAuthToken sha fault now io tbl p = (Inr a, tbl @ [row_of_token a]) \<and>
           Scope a = ScopeAuth \<and> UserID a = UserID rt \<and>
           Expiry a = io_now io + AuthTokenDuration \<and> Hash a \<noteq> Hash rt)) \<and>
   (RefreshAuthToken sha fault now io tbl p = (Inr a, tbl') \<longrightarrow>
      (\<exists>rt. ValidateToken sha fault now tbl p ScopeRefresh = Inr rt \<and>
            Scope a = ScopeAuth \<and> UserID a = UserID rt \<and> Hash a \<noteq> Hash rt)) \<and>
   (ValidateToken sha fault now tbl p ScopeRefresh = Inr rt \<and>
    RefreshAuthToken sha fault now io tbl p = (res, tbl') \<longrightarrow>
      (\<exists>new. tbl' = tbl @ new) \<and>
      GetByHash None tbl (Rep_array32 (sha p)) = Inr rt \<and>
      GetByHash None tbl' (Rep_array32 (sha p)) = Inr rt \<and>
      (\<forall>later. later \<le> Expiry rt \<longrightarrow>
         ValidateToken sha None later tbl' p ScopeRefresh = Inr rt))"
proof -
  have part1: "\<exists>a. RefreshAuthToken sha fault now io tbl p = (Inr a, tbl @ [row_of_token a]) \<and>
           Scope a = ScopeAuth \<and> UserID a = UserID rt \<and>
           Expiry a = io_now io + AuthTokenDuration \<and> Hash a \<noteq> Hash rt"
    if v: "ValidateToken sha fault now tbl p ScopeRefresh = Inr rt"
      and io: "io_rand io = Inr bs" "io_insert io = None"
      and fresh: "Rep_array32 (sha (EncodeToString (Rep_array32 bs))) \<notin> set (map row_hash tbl)"
  proof -
    from CreateNewToken_succeeds [where sha = sha and io = io and bs = bs and tbl = tbl
        and u = "UserID rt" and ttl = AuthTokenDuration and s = ScopeAuth] io fresh
    obtain a where c: "CreateNewToken sha io tbl (UserID rt) AuthTokenDuration ScopeAuth =
        (Inr a, tbl @ [row_of_token a])"
      by blast
    from CreateNewToken_success_shape [OF c]
    have sh: "UserID a = UserID rt" "Scope a = ScopeAuth"
        "Expiry a = io_now io + AuthTokenDuration" "Hash a \<notin> set (map row_hash tbl)"
      by blast+
    from ValidateToken_Inr [OF v] obtain r where
      "find (\<lambda>r. row_hash r = Rep_array32 (sha p)) tbl = Some r" "rt = token_of_row r"
      by blast
    then have "Hash rt \<in> set (map row_hash tbl)"
      using find_Some_hash [of "Rep_array32 (sha p)" tbl r] by (simp add: token_of_row_fields)
    with sh(4) have "Hash a \<noteq> Hash rt" by auto
    with c sh show ?thesis by (simp add: RefreshAuthToken_issue [OF v])
  qed
  have part2: "\<exists>rt. ValidateToken sha fault now tbl p ScopeRefresh = Inr rt \<and>
            Scope a = ScopeAuth \<and> UserID a = UserID rt \<and> Hash a \<noteq> Hash rt"
    if h: "RefreshAuthToken sha fault now io tbl p = (Inr a, tbl')"
  proof (cases "ValidateToken sha fault now tbl p ScopeRefresh")
    case (Inl e)
    with h show ?thesis by (simp add: RefreshAuthToken_rejected)
  next
    case (Inr rt)
    with h have c: "CreateNewToken sha io tbl (UserID rt) AuthTokenDuration ScopeAuth = (Inr a, tbl')"
      by (simp add: RefreshAuthToken_issue)
    from CreateNewToken_success_shape [OF c]
    have sh: "UserID a = UserID rt" "Scope a = ScopeAuth" "Hash a \<notin> set (map row_hash tbl)"
      by blast+
    from ValidateToken_Inr [OF Inr] obtain r where
      "find (\<lambda>r. row_hash r = Rep_array32 (sha p)) tbl = Some r" "rt = token_of_row r"
      by blast
    then have "Hash rt \<in> set (map row_hash tbl)"
      using find_Some_hash [of "Rep_array32 (sha p)" tbl r] by (simp add: token_of_row_fields)
    with sh(3) have "Hash a \<noteq> Hash rt" by auto
    with Inr sh show ?thesis by simp
  qed
  have part3: "(\<exists>new. tbl' = tbl @ new) \<and>
      GetByHash None tbl (Rep_array32 (sha p)) = Inr rt \<and>
      GetByHash None tbl' (Rep_array32 (sha p)) = Inr rt \<and>
      (\<forall>later. later \<le> Expiry rt \<longrightarrow>
         ValidateToken sha None later tbl' p ScopeRefresh = Inr rt)"
    if v: "ValidateToken sha fault now tbl p ScopeRefresh = Inr rt"
      and h: "RefreshAuthToken sha fault now io tbl p = (res, tbl')"
  proof -
    from h have c: "CreateNewToken sha io tbl (UserID rt) AuthTokenDuration ScopeAuth = (res, tbl')"
      by (simp add: RefreshAuthToken_issue [OF v])
    from CreateNewToken_extends [OF c] obtain new where new: "tbl' = tbl @ new" by blast
    from ValidateToken_Inr [OF v] obtain r where
      f: "find (\<lambda>r. row_hash r = Rep_array32 (sha p)) tbl = Some r" and rt: "rt = token_of_row r"
      and sc: "row_scope r = ScopeRefresh"
      by blast
    from f have f': "find (\<lambda>r. row_hash r = Rep_array32 (sha p)) tbl' = Some r"
      by (simp add: new find_append_Some)
    have "ValidateToken sha None later tbl' p ScopeRefresh = Inr rt" if "later \<le> Expiry rt" for later
      using ValidateToken_found [where sha = sha and p = p and tbl = tbl' and r = r
          and now = later and s = ScopeRefresh] f' sc that rt
      by (simp add: token_of_row_fields)
    with new f f' rt show ?thesis by (simp add: GetByHash_found)
  qed
  from part1 part2 part3 show ?thesis by blast
qed

section \<open>Issuing a pair\<close>

lemma find_snoc_new:
  "h \<notin> set (map row_hash tbl) \<Longrightarrow> row_hash r = h \<Longrightarrow>
     find (\<lambda>r. row_hash r = h) (tbl @ [r]) = Some r"
  by (induction tbl) auto

lemma CreateAuthTokenWithRefresh_first_fails:
  "CreateNewToken sha io_a tbl u AuthTokenDuration ScopeAuth = (Inl e, tbl_a) \<Longrightarrow>
   CreateAuthTokenWithRefresh sha io_a io_b tbl u = (Inl e, tbl_a)"
  by (simp add: CreateAuthTokenWithRefresh_def)

lemma CreateAuthTokenWithRefresh_second_fails:
  "CreateNewToken sha io_a tbl u AuthTokenDuration ScopeAuth = (Inr a, tbl_a) \<Longrightarrow>
   CreateNewToken sha io_b tbl_a u RefreshTokenDuration ScopeRefresh = (Inl e, tbl_b) \<Longrightarrow>
   CreateAuthTokenWithRefresh sha io_a io_b tbl u = (Inl e, tbl_b)"
  by (simp add: CreateAuthTokenWithRefresh_def)

lemma CreateAuthTokenWithRefresh_both:
  "CreateNewToken sha io_a tbl u AuthTokenDuration ScopeAuth = (Inr a, tbl_a) \<Longrightarrow>
   CreateNewToken sha io_b tbl_a u RefreshTokenDuration ScopeRefresh = (Inr r, tbl_b) \<Longrightarrow>
   CreateAuthTokenWithRefresh sha io_a io_b tbl u = (Inr (a, r), tbl_b)"
  by (simp add: CreateAuthTokenWithRefresh_def)

text \<open>Every successful run went through both insertions.\<close>

lemma CreateAuthTokenWithRefresh_Inr:
  assumes "CreateAuthTokenWithRefresh sha io_a io_b tbl u = (Inr (a, r), tbl')"
  shows "CreateNewToken sha io_a tbl u AuthTokenDuration ScopeAuth = (Inr a, tbl @ [row_of_token a]) \<and>
         CreateNewToken sha io_b (tbl @ [row_of_token a]) u RefreshTokenDuration ScopeRefresh =
           (Inr r, tbl @ [row_of_token a, row_of_token r]) \<and>
         tbl' = tbl @ [row_of_token a, row_of_token r]"
proof -
  obtain ra ta where ca: "CreateNewToken sha io_a tbl u AuthTokenDuration ScopeAuth = (ra, ta)"
    by (cases "CreateNewToken sha io_a tbl u AuthTokenDuration ScopeAuth")
  obtain rb tb where cb: "CreateNewToken sha io_b ta u RefreshTokenDuration ScopeRefresh = (rb, tb)"
    by (cases "CreateNewToken sha io_b ta u RefreshTokenDuration ScopeRefresh")
  from assms ca cb have eq: "ra = Inr a" "rb = Inr r" "tb = tbl'"
    by (auto simp: CreateAuthTokenWithRefresh_def split: sum.splits)
  from CreateNewToken_success_shape [OF ca [unfolded eq]] have ta: "ta = tbl @ [row_of_token a]"
    by blast
  from CreateNewToken_success_shape [OF cb [unfolded eq]] have tb: "tbl' = ta @ [row_of_token r]"
    by blast
  from ca cb eq ta tb show ?thesis by simp
qed

lemma CreateAuthTokenWithRefresh_extends:
  assumes "CreateAuthTokenWithRefresh sha io_a io_b tbl u = (res, tbl')"
  shows "\<exists>new. tbl' = tbl @ new \<and> length new \<le> 2"
proof -
  obtain ra ta where ca: "CreateNewToken sha io_a tbl u AuthTokenDuration ScopeAuth = (ra, ta)"
    by (cases "CreateNewToken sha io_a tbl u AuthTokenDuration ScopeAuth")
  obtain rb tb where cb: "CreateNewToken sha io_b ta u RefreshTokenDuration ScopeRefresh = (rb, tb)"
    by (cases "CreateNewToken sha io_b ta u RefreshTokenDuration ScopeRefresh")
  from CreateNewToken_extends [OF ca] obtain na where na: "ta = tbl @ na" "length na \<le> 1"
    by blast
  from CreateNewToken_extends [OF cb] obtain nb where nb: "tb = ta @ nb" "length nb \<le> 1"
    by blast
  from assms ca cb have "tbl' = ta \<or> tbl' = tb"
    by (auto simp: CreateAuthTokenWithRefresh_def split: sum.splits)
  then show ?thesis
  proof
    assume "tbl' = ta"
    with na show ?thesis by auto
  next
    assume "tbl' = tb"
    with na nb have "tbl' = tbl @ (na @ nb)" "length (na @ nb) \<le> 2" by auto
    then show ?thesis by blast
  qed
qed

text \<open>
  Claim C5. The two durations are 2 hours and 7 days. \<open>CreateAuthTokenWithRefresh\<close>
  deletes nothing: the table it leaves is the old one with at most two rows appended. A
  successful call appends the row of an \<open>authentication\<close> token that expires 2 hours
  after its clock reading and the row of a \<open>refresh\<close> token that expires 7 days after
  its own, both for the given user, and the user's earlier refresh rows are all still
  there. With a working random source and database and fresh, different hashes the call
  succeeds. When the first token was inserted and the second issuance fails, the call
  returns that error and the table still holds the first token's row, which is read back
  by its hash.
\<close>

theorem C5_paired_issue:
  "AuthTokenDuration = 2 * 60 * 60 * 1000000000 \<and>
   RefreshTokenDuration = 7 * 24 * 60 * 60 * 1000000000 \<and>
   (CreateAuthTokenWithRefresh sha io_a io_b tbl u = (res, tbl') \<longrightarrow>
      (\<exists>new. tbl' = tbl @ new \<and> length new \<le> 2)) \<and>
   (CreateAuthTokenWithRefresh sha io_a io_b tbl u = (Inr (a, r), tbl') \<longrightarrow>
      tbl' = tbl @ [row_of_token a, row_of_token r] \<and>
      UserID a = u \<and> Scope a = ScopeAuth \<and> Expiry a = io_now io_a + AuthTokenDuration \<and>
      UserID r = u \<and> Scope r = ScopeRefresh \<and> Expiry r = io_now io_b + RefreshTokenDuration \<and>
      slot tbl' u ScopeRefresh = slot tbl u ScopeRefresh @ [row_of_token r]) \<and>
   (io_rand io_a = Inr bs_a \<and> io_insert io_a = None \<and>
    io_rand io_b = Inr bs_b \<and> io_insert io_b = None \<and>
    Rep_array32 (sha (EncodeToString (Rep_array32 bs_a))) \<notin> set (map row_hash tbl) \<and>
    Rep_array32 (sha (EncodeToString (Rep_array32 bs_b))) \<notin> set (map row_hash tbl) \<and>
    Rep_array32 (sha (EncodeToString (Rep_array32 bs_b))) \<noteq>
      Rep_array32 (sha (EncodeToString (Rep_array32 bs_a))) \<longrightarrow>
      (\<exists>a r. CreateAuthTokenWithRefresh sha io_a io_b tbl u =
         (Inr (a, r), tbl @ [row_of_token a, row_of_token r]))) \<and>
   (CreateNewToken sha io_a tbl u AuthTokenDuration ScopeAuth = (Inr a, tbl_a) \<and>
    CreateNewToken sha io_b tbl_a u RefreshTokenDuration ScopeRefresh = (Inl e, tbl_b) \<longrightarrow>
      CreateAuthTokenWithRefresh sha io_a io_b tbl u = (Inl e, tbl @ [row_of_token a]) \<and>
      GetByHash None (tbl @ [row_of_token a]) (Hash a) = Inr (token_of_row (row_of_token a)))"
proof -
  have shape: "tbl' = tbl @ [row_of_token a, row_of_token r] \<and>
      UserID a = u \<and> Scope a = ScopeAuth \<and> Expiry a = io_now io_a + AuthTokenDuration \<and>
      UserID r = u \<and> Scope r = ScopeRefresh \<and> Expiry r = io_now io_b + RefreshTokenDuration \<and>
      slot tbl' u ScopeRefresh = slot tbl u ScopeRefresh @ [row_of_token r]"
    if h: "CreateAuthTokenWithRefresh sha io_a io_b tbl u = (Inr (a, r), tbl')"
  proof -
    from CreateAuthTokenWithRefresh_Inr [OF h]
    have ca: "CreateNewToken sha io_a tbl u AuthTokenDuration ScopeAuth = (Inr a, tbl @ [row_of_token a])"
      and cb: "CreateNewToken sha io_b (tbl @ [row_of_token a]) u RefreshTokenDuration ScopeRefresh =
           (Inr r, tbl @ [row_of_token a, row_of_token r])"
      and t: "tbl' = tbl @ [row_of_token a, row_of_token r]"
      by blast+
    from CreateNewToken_success_shape [OF ca]
    have fa: "UserID a = u" "Scope a = ScopeAuth" "Expiry a = io_now io_a + AuthTokenDuration"
      by blast+
    from CreateNewToken_success_shape [OF cb]
    have fb: "UserID r = u" "Scope r = ScopeRefresh" "Expiry r = io_now io_b + RefreshTokenDuration"
      by blast+
    have "ScopeAuth \<noteq> ScopeRefresh" by (simp add: ScopeAuth_def ScopeRefresh_def)
    with fa fb have "slot tbl' u ScopeRefresh = slot tbl u ScopeRefresh @ [row_of_token r]"
      by (simp add: t slot_def row_of_token_fields)
    with t fa fb show ?thesis by blast
  qed
  have both: "\<exists>a r. CreateAuthTokenWithRefresh sha io_a io_b tbl u =
         (Inr (a, r), tbl @ [row_of_token a, row_of_token r])"
    if io: "io_rand io_a = Inr bs_a" "io_insert io_a = None"
        "io_rand io_b = Inr bs_b" "io_insert io_b = None"
      and fresh: "Rep_array32 (sha (EncodeToString (Rep_array32 bs_a))) \<notin> set (map row_hash tbl)"
        "Rep_array32 (sha (EncodeToString (Rep_array32 bs_b))) \<notin> set (map row_hash tbl)"
        "Rep_array32 (sha (EncodeToString (Rep_array32 bs_b))) \<noteq>
           Rep_array32 (sha (EncodeToString (Rep_array32 bs_a)))"
  proof -
    from CreateNewToken_succeeds [where sha = sha and io = io_a and bs = bs_a and tbl = tbl
        and u = u and ttl = AuthTokenDuration and s = ScopeAuth] io fresh
    obtain a where ca: "CreateNewToken sha io_a tbl u AuthTokenDuration ScopeAuth =
        (Inr a, tbl @ [row_of_token a])"
      by blast
    from CreateNewToken_outcome [OF ca] io(1)
    have ha: "Hash a = Rep_array32 (sha (EncodeToString (Rep_array32 bs_a)))"
      by (auto simp: GenerateToken_def Let_def)
    with fresh have "Rep_array32 (sha (EncodeToString (Rep_array32 bs_b)))
        \<notin> set (map row_hash (tbl @ [row_of_token a]))"
      by (simp add: row_of_token_fields)
    from CreateNewToken_succeeds [where sha = sha and io = io_b and bs = bs_b
        and tbl = "tbl @ [row_of_token a]" and u = u and ttl = RefreshTokenDuration
        and s = ScopeRefresh] io(3,4) this
    obtain r where "CreateNewToken sha io_b (tbl @ [row_of_token a]) u RefreshTokenDuration
        ScopeRefresh = (Inr r, (tbl @ [row_of_token a]) @ [row_of_token r])"
      by blast
    from CreateAuthTokenWithRefresh_both [OF ca this] show ?thesis by auto
  qed
  have partial: "CreateAuthTokenWithRefresh sha io_a io_b tbl u = (Inl e, tbl @ [row_of_token a]) \<and>
      GetByHash None (tbl @ [row_of_token a]) (Hash a) = Inr (token_of_row (row_of_token a))"
    if ca: "CreateNewToken sha io_a tbl u AuthTokenDuration ScopeAuth = (Inr a, tbl_a)"
      and cb: "CreateNewToken sha io_b tbl_a u RefreshTokenDuration ScopeRefresh = (Inl e, tbl_b)"
  proof -
    from CreateNewToken_success_shape [OF ca]
    have ta: "tbl_a = tbl @ [row_of_token a]" and na: "Hash a \<notin> set (map row_hash tbl)"
      by blast+
    from CreateNewToken_outcome [OF cb] have tb: "tbl_b = tbl_a" by auto
    from na have "find (\<lambda>r. row_hash r = Hash a) (tbl @ [row_of_token a]) = Some (row_of_token a)"
      by (rule find_snoc_new) (simp add: row_of_token_fields)
    then have "GetByHash None (tbl @ [row_of_token a]) (Hash a) = Inr (token_of_row (row_of_token a))"
      by (rule GetByHash_found)
    with CreateAuthTokenWithRefresh_second_fails [OF ca cb] ta tb show ?thesis by simp
  qed
  have d: "AuthTokenDuration = 2 * 60 * 60 * 1000000000"
      "RefreshTokenDuration = 7 * 24 * 60 * 60 * 1000000000"
    by (simp_all add: AuthTokenDuration_def RefreshTokenDuration_def Hour_def)
  from d shape both partial CreateAuthTokenWithRefresh_extends [of sha io_a io_b tbl u res tbl']
  show ?thesis by blast
qed

subsection \<open>One row for a user and a scope\<close>

lemma slot_filter_le: "length (slot (filter P tbl) u s) \<le> length (slot tbl u s)"
proof -
  have "slot (filter P tbl) u s = filter P (slot tbl u s)"
    by (auto simp: slot_def intro: filter_cong)
  then show ?thesis by simp
qed

lemma slot_evicted_cases:
  "slot (evicted tbl u s) u' s' = (if u' = u \<and> s' = s then [] else slot tbl u' s')"
  by (induction tbl) (auto simp: slot_def evicted_def)

lemma DeleteAll_slot_le:
  "DeleteAllTokensForUser fault tbl u s = (res, tbl') \<Longrightarrow>
     length (slot tbl' u' s') \<le> length (slot tbl u' s')"
  by (cases fault) (auto simp: DeleteAllTokensForUser_def slot_filter_le)

lemma DeleteTokenByHash_slot_le:
  "DeleteTokenByHash fault tbl h = (res, tbl') \<Longrightarrow>
     length (slot tbl' u' s') \<le> length (slot tbl u' s')"
  by (cases fault) (auto simp: DeleteTokenByHash_def slot_filter_le)

lemma evict_then_issue_keeps_single:
  assumes c: "CreateNewToken sha io (evicted tbl u s) u ttl s = (res, tbl')"
    and one: "length (slot tbl u' s') \<le> 1"
  shows "length (slot tbl' u' s') \<le> 1"
proof -
  from CreateNewToken_outcome [OF c]
  consider "tbl' = evicted tbl u s"
    | token where "tbl' = evicted tbl u s @ [row_of_token token]"
        "GenerateToken sha (io_now io) (io_rand io) u ttl s = Inr token"
    by blast
  then show ?thesis
  proof cases
    case 1
    with one show ?thesis by (simp add: slot_evicted_cases)
  next
    case 2
    from GenerateToken_fields [OF 2(2)] have "UserID token = u" "Scope token = s" by simp_all
    with one 2(1) show ?thesis
      by (simp add: slot_snoc slot_evicted_cases row_of_token_fields)
  qed
qed

lemma CreateAuthToken_keeps_single:
  assumes "CreateAuthToken sha del io tbl u ttl = (res, tbl')" "length (slot tbl u' s') \<le> 1"
  shows "length (slot tbl' u' s') \<le> 1"
proof (cases del)
  case (Some e)
  with assms show ?thesis by (simp add: CreateAuthToken_delete_fails)
next
  case None
  with assms have "CreateNewToken sha io (evicted tbl u ScopeAuth) u ttl ScopeAuth = (res, tbl')"
    by (simp add: CreateAuthToken_issue)
  from evict_then_issue_keeps_single [OF this assms(2)] show ?thesis .
qed

lemma CreateDeployToken_keeps_single:
  assumes "CreateDeployToken sha del io tbl u = (res, tbl')" "length (slot tbl u' s') \<le> 1"
  shows "length (slot tbl' u' s') \<le> 1"
proof (cases del)
  case (Some e)
  with assms show ?thesis by (simp add: CreateDeployToken_delete_fails)
next
  case None
  with assms have "CreateNewToken sha io (evicted tbl u ScopeDeploy) u DeployTokenDuration
      ScopeDeploy = (res, tbl')"
    by (simp add: CreateDeployToken_issue)
  from evict_then_issue_keeps_single [OF this assms(2)] show ?thesis .
qed

lemma Revoke_keeps_single:
  "RevokeToken fault tbl h = (res, tbl') \<Longrightarrow> length (slot tbl u' s') \<le> 1 \<Longrightarrow>
     length (slot tbl' u' s') \<le> 1"
  "RevokeAllUserTokens fault tbl u s = (res, tbl') \<Longrightarrow> length (slot tbl u' s') \<le> 1 \<Longrightarrow>
     length (slot tbl' u' s') \<le> 1"
  using DeleteTokenByHash_slot_le [of fault tbl h res tbl' u' s']
    DeleteAll_slot_le [of fault tbl u s res tbl' u' s']
  by (simp_all add: RevokeToken_def RevokeAllUserTokens_def)



text \<open>
  Claim C1. \<open>CreateAuthTokenWithRefresh\<close> and \<open>RefreshAuthToken\<close> insert an
  \<open>authentication\<close> token without deleting the user's earlier ones: after a
  successful call the user's rows of that scope are the earlier rows and the new one. So
  a user who had one such token has two afterwards, and the bound of one token for a user
  and a scope does not hold along these two operations. The four other operations keep
  the bound: a slot that had at most one row has at most one row after
  \<open>CreateAuthToken\<close>, \<open>CreateDeployToken\<close>, \<open>RevokeToken\<close> and
  \<open>RevokeAllUserTokens\<close>, whatever they return.
\<close>

theorem C1_issue_without_eviction:
  "(CreateAuthTokenWithRefresh sha io_a io_b tbl u = (Inr (a, r), tbl') \<longrightarrow>
      slot tbl' u ScopeAuth = slot tbl u ScopeAuth @ [row_of_token a]) \<and>
   (RefreshAuthToken sha fault now io tbl p = (Inr a, tbl') \<longrightarrow>
      slot tbl' (UserID a) ScopeAuth = slot tbl (UserID a) ScopeAuth @ [row_of_token a]) \<and>
   (CreateAuthToken sha fault io tbl u ttl = (res, tbl') \<and> length (slot tbl v s) \<le> 1 \<longrightarrow>
      length (slot tbl' v s) \<le> 1) \<and>
   (CreateDeployToken sha fault io tbl u = (res, tbl') \<and> length (slot tbl v s) \<le> 1 \<longrightarrow>
      length (slot tbl' v s) \<le> 1) \<and>
   (RevokeToken fault tbl h = (res_d, tbl') \<and> length (slot tbl v s) \<le> 1 \<longrightarrow>
      length (slot tbl' v s) \<le> 1) \<and>
   (RevokeAllUserTokens fault tbl u scope = (res_d, tbl') \<and> length (slot tbl v s) \<le> 1 \<longrightarrow>
      length (slot tbl' v s) \<le> 1)"
proof -
  have ne: "ScopeRefresh \<noteq> ScopeAuth" by (simp add: ScopeAuth_def ScopeRefresh_def)
  have p1: "slot tbl' u ScopeAuth = slot tbl u ScopeAuth @ [row_of_token a]"
    if h: "CreateAuthTokenWithRefresh sha io_a io_b tbl u = (Inr (a, r), tbl')"
  proof -
    from CreateAuthTokenWithRefresh_Inr [OF h]
    have ca: "CreateNewToken sha io_a tbl u AuthTokenDuration ScopeAuth = (Inr a, tbl @ [row_of_token a])"
      and cb: "CreateNewToken sha io_b (tbl @ [row_of_token a]) u RefreshTokenDuration ScopeRefresh =
           (Inr r, tbl @ [row_of_token a, row_of_token r])"
      and t: "tbl' = tbl @ [row_of_token a, row_of_token r]"
      by blast+
    from CreateNewToken_success_shape [OF ca] have fa: "UserID a = u" "Scope a = ScopeAuth"
      by blast+
    from CreateNewToken_success_shape [OF cb] have fb: "Scope r = ScopeRefresh"
      by blast
    from fa fb ne show ?thesis by (simp add: t slot_def row_of_token_fields)
  qed
  have p2: "slot tbl' (UserID a) ScopeAuth = slot tbl (UserID a) ScopeAuth @ [row_of_token a]"
    if h: "RefreshAuthToken sha fault now io tbl p = (Inr a, tbl')"
  proof (cases "ValidateToken sha fault now tbl p ScopeRefresh")
    case (Inl e)
    with h show ?thesis by (simp add: RefreshAuthToken_rejected)
  next
    case (Inr rt)
    with h have c: "CreateNewToken sha io tbl (UserID rt) AuthTokenDuration ScopeAuth = (Inr a, tbl')"
      by (simp add: RefreshAuthToken_issue)
    from CreateNewToken_success_shape [OF c]
    have "tbl' = tbl @ [row_of_token a]" "Scope a = ScopeAuth" by blast+
    then show ?thesis by (simp add: slot_def row_of_token_fields)
  qed
  note k1 = CreateAuthToken_keeps_single [of sha fault io tbl u ttl res tbl' v s]
    and k2 = CreateDeployToken_keeps_single [of sha fault io tbl u res tbl' v s]
    and k3 = Revoke_keeps_single(1) [of fault tbl h res_d tbl' v s]
    and k4 = Revoke_keeps_single(2) [of fault tbl u scope res_d tbl' v s]
  show ?thesis
    apply (intro conjI)
         apply (rule impI, rule p1, assumption)
        apply (rule impI, rule p2, assumption)
       apply (rule impI, elim conjE, rule k1, assumption+)
      apply (rule impI, elim conjE, rule k2, assumption+)
     apply (rule impI, elim conjE, rule k3, assumption+)
    apply (rule impI, elim conjE, rule k4, assumption+)
    done
qed

section \<open>A sample session\<close>

lemma sample_pair_issued:
  "CreateAuthTokenWithRefresh sample_digest sample_io_A sample_io_B [] 7 =
     (Inr (sample_auth, sample_refresh), [row_of_token sample_auth, row_of_token sample_refresh])"
proof -
  have a: "CreateNewToken sample_digest sample_io_A [] 7 AuthTokenDuration ScopeAuth =
      (Inr sample_auth, [] @ [row_of_token sample_auth])"
    by (rule issue_A) simp
  have b: "CreateNewToken sample_digest sample_io_B ([] @ [row_of_token sample_auth]) 7
      RefreshTokenDuration ScopeRefresh =
      (Inr sample_refresh, ([] @ [row_of_token sample_auth]) @ [row_of_token sample_refresh])"
    by (rule issue_B) (simp add: row_of_token_fields sample_hashes_distinct [symmetric])
  from CreateAuthTokenWithRefresh_both [OF a b] show ?thesis by simp
qed

lemma sample_pair_partial:
  "CreateAuthTokenWithRefresh sample_digest sample_io_A sample_io_noinsert [] 7 =
     (Inl (ErrOther ''insert''), [row_of_token sample_auth])"
proof -
  have a: "CreateNewToken sample_digest sample_io_A [] 7 AuthTokenDuration ScopeAuth =
      (Inr sample_auth, [] @ [row_of_token sample_auth])"
    by (rule issue_A) simp
  from CreateAuthTokenWithRefresh_second_fails [OF a issue_noinsert] show ?thesis by simp
qed

lemma sample_refresh_found:
  "find (\<lambda>r. row_hash r = Rep_array32 (sample_digest (PlainText sample_refresh)))
     [row_of_token sample_auth, row_of_token sample_refresh] = Some (row_of_token sample_refresh)"
proof -
  have "Rep_array32 (sample_digest (PlainText sample_refresh)) = Hash sample_refresh"
    by (simp add: sample_token_B_def digest_block_255)
  then show ?thesis
    by (simp add: row_of_token_fields sample_hashes_distinct)
qed

lemma sample_refresh_valid:
  "ValidateToken sample_digest None 5000 [row_of_token sample_auth, row_of_token sample_refresh]
     (PlainText sample_refresh) ScopeRefresh = Inr (token_of_row (row_of_token sample_refresh))"
  by (rule ValidateToken_found [where sha = sample_digest, OF sample_refresh_found])
     (simp_all add: row_of_token_fields sample_token_B_def RefreshTokenDuration_def Hour_def)

lemma sample_refreshed:
  "RefreshAuthToken sample_digest None 5000 sample_io_C
     [row_of_token sample_auth, row_of_token sample_refresh] (PlainText sample_refresh) =
   (Inr sample_auth_again,
    [row_of_token sample_auth, row_of_token sample_refresh, row_of_token sample_auth_again])"
proof -
  have "CreateNewToken sample_digest sample_io_C
      [row_of_token sample_auth, row_of_token sample_refresh] 7 AuthTokenDuration ScopeAuth =
    (Inr sample_auth_again,
     [row_of_token sample_auth, row_of_token sample_refresh] @ [row_of_token sample_auth_again])"
    by (rule issue_C) (simp add: row_of_token_fields sample_hashes_distinct [symmetric])
  moreover have "UserID (token_of_row (row_of_token sample_refresh)) = 7"
    by (simp add: token_of_row_fields row_of_token_fields sample_token_B_def)
  ultimately show ?thesis
    using RefreshAuthToken_issue [OF sample_refresh_valid, of sample_io_C] by simp
qed

theorem C1_issue_without_eviction_witness:
  "CreateAuthTokenWithRefresh sample_digest sample_io_A sample_io_B [] 7 =
     (Inr (sample_auth, sample_refresh), [row_of_token sample_auth, row_of_token sample_refresh]) \<and>
   RefreshAuthToken sample_digest None 5000 sample_io_C
     [row_of_token sample_auth, row_of_token sample_refresh] (PlainText sample_refresh) =
     (Inr sample_auth_again,
      [row_of_token sample_auth, row_of_token sample_refresh, row_of_token sample_auth_again]) \<and>
   slot [row_of_token sample_auth, row_of_token sample_refresh, row_of_token sample_auth_again]
     7 ScopeAuth = [row_of_token sample_auth, row_of_token sample_auth_again] \<and>
   5000 \<le> row_expiry (row_of_token sample_auth) \<and>
   5000 \<le> row_expiry (row_of_token sample_auth_again) \<and>
   length (slot [row_of_token (sample_token_B 7 60 ScopeAuth)] 7 ScopeAuth) \<le> 1"
proof -
  have u: "UserID sample_auth_again = 7" by (simp add: sample_token_C_def)
  have e: "slot [] 7 ScopeAuth = []" by (simp add: slot_def)
  note pair = C1_issue_without_eviction [where sha = sample_digest and io_a = sample_io_A
      and io_b = sample_io_B and tbl = "[]" and u = 7 and a = sample_auth and r = sample_refresh
      and tbl' = "[row_of_token sample_auth, row_of_token sample_refresh]"
      and fault = None and now = 5000 and io = sample_io_C and p = "PlainText sample_refresh"
      and ttl = 60 and res = "Inl ErrConflict" and v = 7 and s = ScopeAuth and h = "[]"
      and res_d = None and scope = ScopeAuth]
  from pair have "CreateAuthTokenWithRefresh sample_digest sample_io_A sample_io_B [] 7 =
        (Inr (sample_auth, sample_refresh),
         [row_of_token sample_auth, row_of_token sample_refresh]) \<longrightarrow>
      slot [row_of_token sample_auth, row_of_token sample_refresh] 7 ScopeAuth =
        slot [] 7 ScopeAuth @ [row_of_token sample_auth]"
    by (elim conjE)
  with sample_pair_issued e
  have s1: "slot [row_of_token sample_auth, row_of_token sample_refresh] 7 ScopeAuth =
      [row_of_token sample_auth]"
    by simp
  note again = C1_issue_without_eviction [where sha = sample_digest and io_a = sample_io_A
      and io_b = sample_io_B and u = 7 and r = sample_refresh
      and tbl = "[row_of_token sample_auth, row_of_token sample_refresh]"
      and a = sample_auth_again
      and tbl' = "[row_of_token sample_auth, row_of_token sample_refresh,
                   row_of_token sample_auth_again]"
      and fault = None and now = 5000 and io = sample_io_C and p = "PlainText sample_refresh"
      and ttl = 60 and res = "Inl ErrConflict" and v = 7 and s = ScopeAuth and h = "[]"
      and res_d = None and scope = ScopeAuth]
  from again have "RefreshAuthToken sample_digest None 5000 sample_io_C
        [row_of_token sample_auth, row_of_token sample_refresh] (PlainText sample_refresh) =
        (Inr sample_auth_again,
         [row_of_token sample_auth, row_of_token sample_refresh,
          row_of_token sample_auth_again]) \<longrightarrow>
      slot [row_of_token sample_auth, row_of_token sample_refresh,
            row_of_token sample_auth_again] (UserID sample_auth_again) ScopeAuth =
        slot [row_of_token sample_auth, row_of_token sample_refresh]
          (UserID sample_auth_again) ScopeAuth @ [row_of_token sample_auth_again]"
    by (elim conjE)
  with sample_refreshed u s1
  have s2: "slot [row_of_token sample_auth, row_of_token sample_refresh,
      row_of_token sample_auth_again] 7 ScopeAuth =
      [row_of_token sample_auth, row_of_token sample_auth_again]"
    by simp
  have x: "5000 \<le> row_expiry (row_of_token sample_auth)"
      "5000 \<le> row_expiry (row_of_token sample_auth_again)"
    by (simp_all add: row_of_token_fields sample_token_A_def sample_token_C_def
        AuthTokenDuration_def Hour_def)
  note keep = C1_issue_without_eviction [where sha = sample_digest and io_a = sample_io_A
      and io_b = sample_io_B and u = 7 and r = sample_refresh
      and tbl = "[row_of_token (sample_token_A 7 60 ScopeAuth)]"
      and a = sample_auth_again
      and tbl' = "[row_of_token (sample_token_B 7 60 ScopeAuth)]"
      and fault = None and now = 5000 and io = sample_io_B and p = "PlainText sample_refresh"
      and ttl = 60 and res = "Inr (sample_token_B 7 60 ScopeAuth)" and v = 7 and s = ScopeAuth
      and h = "[]" and res_d = None and scope = ScopeAuth]
  from keep have "CreateAuthToken sample_digest None sample_io_B
        [row_of_token (sample_token_A 7 60 ScopeAuth)] 7 60 =
        (Inr (sample_token_B 7 60 ScopeAuth), [row_of_token (sample_token_B 7 60 ScopeAuth)]) \<and>
      length (slot [row_of_token (sample_token_A 7 60 ScopeAuth)] 7 ScopeAuth) \<le> 1 \<longrightarrow>
      length (slot [row_of_token (sample_token_B 7 60 ScopeAuth)] 7 ScopeAuth) \<le> 1"
    by (elim conjE)
  with sample_issue_second
  have k: "length (slot [row_of_token (sample_token_B 7 60 ScopeAuth)] 7 ScopeAuth) \<le> 1"
    by (simp add: slot_def)
  from sample_pair_issued sample_refreshed s2 x k show ?thesis by blast
qed

theorem C5_paired_issue_witness:
  "CreateAuthTokenWithRefresh sample_digest sample_io_A sample_io_B [] 7 =
     (Inr (sample_auth, sample_refresh), [row_of_token sample_auth, row_of_token sample_refresh]) \<and>
   Expiry sample_auth = io_now sample_io_A + 7200000000000 \<and>
   Expiry sample_refresh = io_now sample_io_B + 604800000000000 \<and>
   CreateAuthTokenWithRefresh sample_digest sample_io_A sample_io_noinsert [] 7 =
     (Inl (ErrOther ''insert''), [row_of_token sample_auth]) \<and>
   GetByHash None [row_of_token sample_auth] (Hash sample_auth) =
     Inr (token_of_row (row_of_token sample_auth))"
proof -
  have a: "CreateNewToken sample_digest sample_io_A [] 7 AuthTokenDuration ScopeAuth =
      (Inr sample_auth, [row_of_token sample_auth])"
    using issue_A [of 7 AuthTokenDuration ScopeAuth "[]"] by simp
  note inst = C5_paired_issue [where sha = sample_digest and io_a = sample_io_A
      and io_b = sample_io_B and tbl = "[]" and u = 7 and a = sample_auth and r = sample_refresh
      and tbl' = "[row_of_token sample_auth, row_of_token sample_refresh]"
      and res = "Inr (sample_auth, sample_refresh)" and bs_a = "block 0" and bs_b = "block 255"
      and tbl_a = "[row_of_token sample_auth]" and tbl_b = "[row_of_token sample_auth]"
      and e = "ErrOther ''insert''"]
  from inst sample_pair_issued
  have x: "Expiry sample_auth = io_now sample_io_A + 7200000000000"
      "Expiry sample_refresh = io_now sample_io_B + 604800000000000"
    by simp_all
  from C5_paired_issue [where sha = sample_digest and io_a = sample_io_A
      and io_b = sample_io_noinsert and tbl = "[]" and u = 7 and a = sample_auth
      and r = sample_refresh and tbl' = "[row_of_token sample_auth]"
      and res = "Inl (ErrOther ''insert'')" and bs_a = "block 0" and bs_b = "block 1"
      and tbl_a = "[row_of_token sample_auth]" and tbl_b = "[row_of_token sample_auth]"
      and e = "ErrOther ''insert''"]
    a issue_noinsert [of "[row_of_token sample_auth]" 7 RefreshTokenDuration ScopeRefresh]
  have y: "CreateAuthTokenWithRefresh sample_digest sample_io_A sample_io_noinsert [] 7 =
     (Inl (ErrOther ''insert''), [row_of_token sample_auth]) \<and>
     GetByHash None [row_of_token sample_auth] (Hash sample_auth) =
       Inr (token_of_row (row_of_token sample_auth))"
    by simp
  from sample_pair_issued x y show ?thesis by blast
qed

theorem C4_refresh_keeps_refresh_token_witness:
  "RefreshAuthToken sample_digest None 5000 sample_io_C
     [row_of_token sample_auth, row_of_token sample_refresh] (PlainText sample_refresh) =
     (Inr sample_auth_again,
      [row_of_token sample_auth, row_of_token sample_refresh, row_of_token sample_auth_again]) \<and>
   Scope sample_auth_again = ScopeAuth \<and>
   UserID sample_auth_again = UserID (token_of_row (row_of_token sample_refresh)) \<and>
   GetByHash None
     [row_of_token sample_auth, row_of_token sample_refresh, row_of_token sample_auth_again]
     (Rep_array32 (sample_digest (PlainText sample_refresh))) =
     Inr (token_of_row (row_of_token sample_refresh)) \<and>
   ValidateToken sample_digest None 6000
     [row_of_token sample_auth, row_of_token sample_refresh, row_of_token sample_auth_again]
     (PlainText sample_refresh) ScopeRefresh = Inr (token_of_row (row_of_token sample_refresh))"
proof -
  note inst = C4_refresh_keeps_refresh_token [where sha = sample_digest and fault = None
      and now = 5000 and tbl = "[row_of_token sample_auth, row_of_token sample_refresh]"
      and p = "PlainText sample_refresh" and rt = "token_of_row (row_of_token sample_refresh)"
      and io = sample_io_C and bs = "block 1" and a = sample_auth_again
      and res = "Inr sample_auth_again"
      and tbl' = "[row_of_token sample_auth, row_of_token sample_refresh,
                   row_of_token sample_auth_again]"]
  have l: "6000 \<le> Expiry (token_of_row (row_of_token sample_refresh))"
    by (simp add: token_of_row_fields row_of_token_fields sample_token_B_def
        RefreshTokenDuration_def Hour_def)
  from inst sample_refresh_valid sample_refreshed
  have 1: "Scope sample_auth_again = ScopeAuth \<and>
      UserID sample_auth_again = UserID (token_of_row (row_of_token sample_refresh))"
    by auto
  from inst sample_refresh_valid sample_refreshed
  have 2: "GetByHash None
     [row_of_token sample_auth, row_of_token sample_refresh, row_of_token sample_auth_again]
     (Rep_array32 (sample_digest (PlainText sample_refresh))) =
     Inr (token_of_row (row_of_token sample_refresh))"
    by blast
  from inst sample_refresh_valid sample_refreshed l
  have 3: "ValidateToken sample_digest None 6000
     [row_of_token sample_auth, row_of_token sample_refresh, row_of_token sample_auth_again]
     (PlainText sample_refresh) ScopeRefresh = Inr (token_of_row (row_of_token sample_refresh))"
    by blast
  from sample_refreshed 1 2 3 show ?thesis by blast
qed

section \<open>Paging\<close>

lemma ListUsers_call:
  "ListUsers repo limit offset =
     repo (if limit \<le> 0 then 10 else if limit > 100 then 100 else limit)
          (if offset < 0 then 0 else offset)"
  by (simp add: ListUsers_def Let_def)

lemma ListPendingUsers_call:
  "ListPendingUsers repo limit offset =
     repo (if limit \<le> 0 then 10 else if limit > 100 then 100 else limit)
          (if offset < 0 then 0 else offset)"
  by (simp add: ListPendingUsers_def Let_def)

text \<open>
  Claim C10. \<open>ListUsers\<close> and \<open>ListPendingUsers\<close> call the store with a limit and an
  offset that depend on the given ones only: the limit is 10 when the given one is zero
  or less, 100 when it is above 100, and the given one otherwise; the offset is 0 when
  the given one is negative and the given one otherwise. So the store receives a limit
  from 1 to 100 and an offset that is not negative. The store \<open>Pair\<close> returns what it
  receives.
\<close>

theorem C10_paging_clamped:
  "\<exists>l ofs. ListUsers Pair limit offset = (l, ofs) \<and>
      ListPendingUsers Pair limit offset = (l, ofs) \<and>
      ListUsers repo limit offset = repo l ofs \<and>
      ListPendingUsers repo_pending limit offset = repo_pending l ofs \<and>
      0 < l \<and> l \<le> 100 \<and> 0 \<le> ofs \<and>
      (limit \<le> 0 \<longrightarrow> l = 10) \<and>
      (100 < limit \<longrightarrow> l = 100) \<and>
      (0 < limit \<and> limit \<le> 100 \<longrightarrow> l = limit) \<and>
      (offset < 0 \<longrightarrow> ofs = 0) \<and>
      (0 \<le> offset \<longrightarrow> ofs = offset)"
  by (simp add: ListUsers_call ListPendingUsers_call)

theorem C10_paging_clamped_witness:
  "ListUsers Pair (-5) (-3) = (10, 0) \<and> ListPendingUsers Pair 500 40 = (100, 40) \<and>
   ListUsers Pair 20 0 = (20, 0)"
proof -
  from C10_paging_clamped [of "-5" "-3" Pair Pair]
  have a: "ListUsers Pair (-5) (-3) = (10, 0)" by auto
  from C10_paging_clamped [of 500 40 Pair Pair]
  have b: "ListPendingUsers Pair 500 40 = (100, 40)" by auto
  from C10_paging_clamped [of 20 0 Pair Pair]
  have c: "ListUsers Pair 20 0 = (20, 0)" by auto
  from a b c show ?thesis by blast
qed

section \<open>Authentication\<close>

lemma GetUserByUsername_absent:
  "find (\<lambda>r. u_username r = username) tbl = None \<Longrightarrow>
     GetUserByUsername None tbl username = Inr None"
  by (simp add: GetUserByUsername_def)

lemma GetUserByUsername_found:
  "find (\<lambda>r. u_username r = username) tbl = Some r \<Longrightarrow>
     GetUserByUsername None tbl username = Inr (Some (user_of_row r))"
  by (simp add: GetUserByUsername_def)

lemma GetUserByUsername_Some:
  assumes "GetUserByUsername fault tbl username = Inr (Some user)"
  shows "fault = None \<and>
     (\<exists>r. find (\<lambda>r. u_username r = username) tbl = Some r \<and> user = user_of_row r)"
proof (cases fault)
  case None
  with assms show ?thesis
    by (cases "find (\<lambda>r. u_username r = username) tbl") (auto simp: GetUserByUsername_def)
next
  case (Some e)
  with assms show ?thesis by (simp add: GetUserByUsername_def split: if_splits)
qed

lemma user_of_row_fields:
  "Username (user_of_row r) = u_username r" "ApprovedAt (user_of_row r) = u_approved_at r"
  "hash (PasswordHash (user_of_row r)) = u_password_hash r"
  "plainText (PasswordHash (user_of_row r)) = None" "ID (user_of_row r) = u_id r"
  by (simp_all add: user_of_row_def)

lemma password_Matches_ok:
  "cmp (hash p) pw = None \<Longrightarrow> password_Matches cmp p pw = (True, None)"
  by (simp add: password_Matches_def)

lemma password_Matches_mismatch:
  "cmp (hash p) pw = Some ErrMismatchedHashAndPassword \<Longrightarrow>
     password_Matches cmp p pw = (False, None)"
  by (simp add: password_Matches_def)

lemma password_Matches_error:
  "cmp (hash p) pw = Some e \<Longrightarrow> e \<noteq> ErrMismatchedHashAndPassword \<Longrightarrow>
     password_Matches cmp p pw = (False, Some e)"
  by (simp add: password_Matches_def)

lemma AuthenticateUser_Inr:
  assumes "AuthenticateUser cmp fault tbl username pw = Inr user"
  shows "ApprovedAt user \<noteq> None \<and> cmp (hash (PasswordHash user)) pw = None \<and>
     (\<exists>r. find (\<lambda>r. u_username r = username) tbl = Some r \<and> user = user_of_row r)"
proof (cases "GetUserByUsername fault tbl username")
  case (Inl e)
  with assms show ?thesis by (simp add: AuthenticateUser_def)
next
  case (Inr found)
  show ?thesis
  proof (cases found)
    case None
    with assms Inr show ?thesis by (simp add: AuthenticateUser_def)
  next
    case (Some u)
    from GetUserByUsername_Some [OF Inr [unfolded Some]]
    have r: "\<exists>r. find (\<lambda>r. u_username r = username) tbl = Some r \<and> u = user_of_row r"
      by blast
    from assms Inr Some have "user = u \<and> ApprovedAt u \<noteq> None \<and>
        cmp (hash (PasswordHash u)) pw = None"
      by (cases "cmp (hash (PasswordHash u)) pw")
         (auto simp: AuthenticateUser_def password_Matches_def split: if_splits)
    with r show ?thesis by auto
  qed
qed

text \<open>
  Claim C8. A user returned by \<open>AuthenticateUser\<close> is the row with that user name, the
  password fits its hash, and its approval time is set; so a user whose approval time is
  null gets an error for every password and every outcome of the database. With a
  working database: no row with the name gives \<open>ErrUserNotFound\<close>; a password that does
  not fit gives \<open>ErrUnauthorized\<close>; another failure of the comparison is returned as it
  is; a fitting password for a user who is not approved gives \<open>ErrUserNotApproved\<close>; a
  fitting password for an approved user returns the user. The three errors are different
  values.
\<close>

theorem C8_AuthenticateUser:
  "(AuthenticateUser cmp fault tbl username pw = Inr user \<longrightarrow>
      ApprovedAt user \<noteq> None \<and> cmp (hash (PasswordHash user)) pw = None \<and>
      (\<exists>r. find (\<lambda>r. u_username r = username) tbl = Some r \<and> user = user_of_row r)) \<and>
   (find (\<lambda>r. u_username r = username) tbl = None \<longrightarrow>
      AuthenticateUser cmp None tbl username pw = Inl ErrUserNotFound) \<and>
   (find (\<lambda>r. u_username r = username) tbl = Some r \<and>
    cmp (u_password_hash r) pw = Some ErrMismatchedHashAndPassword \<longrightarrow>
      AuthenticateUser cmp None tbl username pw = Inl ErrUnauthorized) \<and>
   (find (\<lambda>r. u_username r = username) tbl = Some r \<and>
    cmp (u_password_hash r) pw = Some e \<and> e \<noteq> ErrMismatchedHashAndPassword \<longrightarrow>
      AuthenticateUser cmp None tbl username pw = Inl e) \<and>
   (find (\<lambda>r. u_username r = username) tbl = Some r \<and>
    cmp (u_password_hash r) pw = None \<and> u_approved_at r = None \<longrightarrow>
      AuthenticateUser cmp None tbl username pw = Inl ErrUserNotApproved) \<and>
   (find (\<lambda>r. u_username r = username) tbl = Some r \<and>
    cmp (u_password_hash r) pw = None \<and> u_approved_at r = Some t \<longrightarrow>
      AuthenticateUser cmp None tbl username pw = Inr (user_of_row r)) \<and>
   (find (\<lambda>r. u_username r = username) tbl = Some r \<and> u_approved_at r = None \<longrightarrow>
      (\<exists>err. AuthenticateUser cmp fault tbl username pw = Inl err)) \<and>
   ErrUserNotFound \<noteq> ErrUnauthorized \<and> ErrUserNotFound \<noteq> ErrUserNotApproved \<and>
   ErrUnauthorized \<noteq> ErrUserNotApproved"
proof -
  have never: "\<exists>err. AuthenticateUser cmp fault tbl username pw = Inl err"
    if f: "find (\<lambda>r. u_username r = username) tbl = Some r" and n: "u_approved_at r = None"
  proof (cases "AuthenticateUser cmp fault tbl username pw")
    case (Inl err)
    then show ?thesis by blast
  next
    case (Inr user)
    from AuthenticateUser_Inr [OF Inr] f have "ApprovedAt user \<noteq> None" "user = user_of_row r"
      by auto
    with n show ?thesis by (simp add: user_of_row_fields)
  qed
  have mismatch: "AuthenticateUser cmp None tbl username pw = Inl ErrUnauthorized"
    if "find (\<lambda>r. u_username r = username) tbl = Some r"
      "cmp (u_password_hash r) pw = Some ErrMismatchedHashAndPassword"
    using that
    by (simp add: AuthenticateUser_def GetUserByUsername_found password_Matches_mismatch
        user_of_row_fields)
  have other: "AuthenticateUser cmp None tbl username pw = Inl e"
    if "find (\<lambda>r. u_username r = username) tbl = Some r"
      "cmp (u_password_hash r) pw = Some e" "e \<noteq> ErrMismatchedHashAndPassword"
    using that
    by (simp add: AuthenticateUser_def GetUserByUsername_found password_Matches_error
        user_of_row_fields)
  have pending: "AuthenticateUser cmp None tbl username pw = Inl ErrUserNotApproved"
    if "find (\<lambda>r. u_username r = username) tbl = Some r"
      "cmp (u_password_hash r) pw = None" "u_approved_at r = None"
    using that
    by (simp add: AuthenticateUser_def GetUserByUsername_found password_Matches_ok
        user_of_row_fields)
  have ok: "AuthenticateUser cmp None tbl username pw = Inr (user_of_row r)"
    if "find (\<lambda>r. u_username r = username) tbl = Some r"
      "cmp (u_password_hash r) pw = None" "u_approved_at r = Some t"
    using that
    by (simp add: AuthenticateUser_def GetUserByUsername_found password_Matches_ok
        user_of_row_fields)
  have missing: "AuthenticateUser cmp None tbl username pw = Inl ErrUserNotFound"
    if "find (\<lambda>r. u_username r = username) tbl = None"
    using that by (simp add: AuthenticateUser_def GetUserByUsername_absent)
  from AuthenticateUser_Inr [of cmp fault tbl username pw user]
    never mismatch other pending ok missing
  show ?thesis by (intro conjI impI; (elim conjE)?; simp)
qed

theorem C8_AuthenticateUser_witness:
  "AuthenticateUser sample_compare None sample_users ''carol'' ''Pw'' = Inl ErrUserNotFound \<and>
   AuthenticateUser sample_compare None sample_users ''alice'' ''pw'' = Inl ErrUnauthorized \<and>
   AuthenticateUser sample_compare None sample_users ''bob'' ''pw'' = Inl ErrUnauthorized \<and>
   AuthenticateUser sample_compare None sample_users ''bob'' ''Pw'' = Inl ErrUserNotApproved \<and>
   AuthenticateUser sample_compare None sample_users ''alice'' ''Pw'' =
     Inr (user_of_row (hd sample_users)) \<and>
   ApprovedAt (user_of_row (hd sample_users)) = Some 20"
proof -
  let ?alice = "hd sample_users"
  let ?bob = "hd (tl sample_users)"
  have fa: "find (\<lambda>r. u_username r = ''alice'') sample_users = Some ?alice"
    and fb: "find (\<lambda>r. u_username r = ''bob'') sample_users = Some ?bob"
    and fc: "find (\<lambda>r. u_username r = ''carol'') sample_users = None"
    by (simp_all add: sample_users_def)
  have rows: "u_password_hash ?alice = [80, 119]" "u_password_hash ?bob = [80, 119]"
      "u_approved_at ?alice = Some 20" "u_approved_at ?bob = None"
    by (simp_all add: sample_users_def)
  have cmp: "sample_compare [80, 119] ''Pw'' = None"
      "sample_compare [80, 119] ''pw'' = Some ErrMismatchedHashAndPassword"
    unfolding sample_compare_def by code_simp+
  have 1: "AuthenticateUser sample_compare None sample_users ''carol'' ''Pw'' = Inl ErrUserNotFound"
    using fc C8_AuthenticateUser [where cmp = sample_compare and tbl = sample_users
        and username = "''carol''" and pw = "''Pw''" and r = ?alice and fault = None
        and e = ErrNoRows and t = 20 and user = "user_of_row ?alice"]
    by simp
  have 2: "AuthenticateUser sample_compare None sample_users ''alice'' ''pw'' = Inl ErrUnauthorized"
    using fa rows cmp C8_AuthenticateUser [where cmp = sample_compare and tbl = sample_users
        and username = "''alice''" and pw = "''pw''" and r = ?alice and fault = None
        and e = ErrNoRows and t = 20 and user = "user_of_row ?alice"]
    by simp
  have 3: "AuthenticateUser sample_compare None sample_users ''bob'' ''pw'' = Inl ErrUnauthorized"
    using fb rows cmp C8_AuthenticateUser [where cmp = sample_compare and tbl = sample_users
        and username = "''bob''" and pw = "''pw''" and r = ?bob and fault = None
        and e = ErrNoRows and t = 20 and user = "user_of_row ?alice"]
    by simp
  have 4: "AuthenticateUser sample_compare None sample_users ''bob'' ''Pw'' = Inl ErrUserNotApproved"
    using fb rows cmp C8_AuthenticateUser [where cmp = sample_compare and tbl = sample_users
        and username = "''bob''" and pw = "''Pw''" and r = ?bob and fault = None
        and e = ErrNoRows and t = 20 and user = "user_of_row ?alice"]
    by simp
  have 5: "AuthenticateUser sample_compare None sample_users ''alice'' ''Pw'' =
      Inr (user_of_row ?alice)"
    using fa rows cmp C8_AuthenticateUser [where cmp = sample_compare and tbl = sample_users
        and username = "''alice''" and pw = "''Pw''" and r = ?alice and fault = None
        and e = ErrNoRows and t = 20 and user = "user_of_row ?alice"]
    by simp
  have 6: "ApprovedAt (user_of_row ?alice) = Some 20"
    using rows by (simp add: user_of_row_fields)
  from 1 2 3 4 5 6 show ?thesis by blast
qed

section \<open>Creating a user\<close>

text \<open>
  White space around a name is removed, ASCII or not; white space inside it and bytes
  that are no code point stay.
\<close>

lemma TrimSpace_examples:
  "TrimSpace '' abc'' = ''abc''"
  "TrimSpace [CHR 0x09, CHR ''a'', CHR '' '', CHR ''b'', CHR 0x0A, CHR 0x0D] = ''a b''"
  "TrimSpace [CHR 0xC2, CHR 0xA0, CHR ''a'', CHR 0xE2, CHR 0x80, CHR 0x83, CHR 0xE3, CHR 0x80, CHR 0x80]
     = ''a''"
  "TrimSpace [CHR 0xC2, CHR ''a'', CHR 0xA0] = [CHR 0xC2, CHR ''a'', CHR 0xA0]"
  "TrimSpace ''   '' = ''''"
  by code_simp+

lemma validatePassword_examples:
  "validatePassword ''alllowercase1'' = Some ErrInvalidPassword"
  "validatePassword ''Valid1Pass'' = None"
  by code_simp+

lemma validateUsername_None_iff:
  "validateUsername username = None \<longleftrightarrow>
     3 \<le> length (TrimSpace username) \<and> length (TrimSpace username) \<le> 50 \<and>
     set (TrimSpace username) \<subseteq> set (lower_letters @ upper_letters @ digits @ ''_-'')"
proof -
  have "TrimSpace username \<noteq> []" if "3 \<le> length (TrimSpace username)"
    using that by auto
  then show ?thesis
    by (auto simp: validateUsername_def Let_def validUsername_MatchString_def list_all_iff)
qed

lemma validateUsername_error:
  "validateUsername username = Some e \<Longrightarrow> e = ErrInvalidUsername"
  by (auto simp: validateUsername_def Let_def split: if_splits)

lemma validatePassword_None_iff:
  "validatePassword pw = None \<longleftrightarrow>
     8 \<le> length pw \<and> length pw \<le> 100 \<and>
     set pw \<inter> set upper_letters \<noteq> {} \<and> set pw \<inter> set lower_letters \<noteq> {} \<and>
     set pw \<inter> set digits \<noteq> {}"
  by (auto simp: validatePassword_def Let_def list_ex_iff)

lemma validatePassword_error:
  "validatePassword pw = Some e \<Longrightarrow> e = ErrInvalidPassword"
  by (auto simp: validatePassword_def Let_def split: if_splits)

lemma CreateUser_invalid_username:
  "validateUsername username = Some e \<Longrightarrow>
     CreateUser generate io tbl username pw = (Inl e, tbl)"
  by (simp add: CreateUser_def)

lemma CreateUser_invalid_password:
  "validateUsername username = None \<Longrightarrow> validatePassword pw = Some e \<Longrightarrow>
     CreateUser generate io tbl username pw = (Inl e, tbl)"
  by (simp add: CreateUser_def)

lemma CreateUser_Inr:
  assumes "CreateUser generate io tbl username pw = (Inr user, tbl')"
  shows "validateUsername username = None \<and> validatePassword pw = None \<and>
     (\<exists>h. generate pw 12 = Inr h \<and> tbl' = tbl @ [new_row io username h] \<and>
        user = user_of_row (new_row io username h))"
proof -
  from assms have vu: "validateUsername username = None"
    by (cases "validateUsername username") (simp_all add: CreateUser_def)
  from assms vu have vp: "validatePassword pw = None"
    by (cases "validatePassword pw") (simp_all add: CreateUser_def)
  from assms vu vp have g: "GetUserByUsername (cio_select io) tbl username = Inr None"
    by (cases "GetUserByUsername (cio_select io) tbl username")
       (auto simp: CreateUser_def split: option.splits)
  from assms vu vp g obtain h where h: "generate pw 12 = Inr h"
    by (cases "generate pw 12") (auto simp: CreateUser_def password_Set_def Let_def)
  from assms vu vp g h have i: "cio_insert io = None"
    by (cases "cio_insert io")
       (auto simp: CreateUser_def password_Set_def Let_def repo_CreateUser_def)
  from assms vu vp g h i
  have "tbl' = tbl @ [new_row io username h] \<and> user = user_of_row (new_row io username h)"
    by (auto simp: CreateUser_def password_Set_def Let_def repo_CreateUser_def
        password_ClearPlainText_def new_row_def user_of_row_def)
  with vu vp h show ?thesis by blast
qed

text \<open>
  Claim C9. \<open>CreateUser\<close> returns the validation error, and leaves the table as it is,
  when \<open>validateUsername\<close> or \<open>validatePassword\<close> rejects its input. The password
  rule is the stated one. The user name rule is the stated one applied to the name
  without its leading and trailing white space, while the name that is stored on success
  is the name as given; so a stored name that has no white space around it satisfies the
  rule. The name \<open>ab\<close> is rejected and \<open>user_name-1\<close> is accepted.
\<close>

theorem C9_CreateUser_validation:
  "(validateUsername username = Some e \<longrightarrow>
      e = ErrInvalidUsername \<and> CreateUser generate io tbl username pw = (Inl e, tbl)) \<and>
   (validateUsername username = None \<and> validatePassword pw = Some e \<longrightarrow>
      e = ErrInvalidPassword \<and> CreateUser generate io tbl username pw = (Inl e, tbl)) \<and>
   (validateUsername username = None \<longleftrightarrow>
      3 \<le> length (TrimSpace username) \<and> length (TrimSpace username) \<le> 50 \<and>
      set (TrimSpace username) \<subseteq> set (lower_letters @ upper_letters @ digits @ ''_-'')) \<and>
   (validatePassword pw = None \<longleftrightarrow>
      8 \<le> length pw \<and> length pw \<le> 100 \<and>
      set pw \<inter> set upper_letters \<noteq> {} \<and> set pw \<inter> set lower_letters \<noteq> {} \<and>
      set pw \<inter> set digits \<noteq> {}) \<and>
   (CreateUser generate io tbl username pw = (Inr user, tbl') \<longrightarrow>
      validateUsername username = None \<and> validatePassword pw = None \<and>
      Username user = username \<and>
      (\<exists>row. tbl' = tbl @ [row] \<and> u_username row = username)) \<and>
   (CreateUser generate io tbl username pw = (Inr user, tbl') \<and>
    TrimSpace username = username \<longrightarrow>
      3 \<le> length (Username user) \<and> length (Username user) \<le> 50 \<and>
      set (Username user) \<subseteq> set (lower_letters @ upper_letters @ digits @ ''_-'')) \<and>
   validateUsername ''ab'' = Some ErrInvalidUsername \<and>
   validateUsername ''user_name-1'' = None"
proof -
  have ex: "validateUsername ''ab'' = Some ErrInvalidUsername" "validateUsername ''user_name-1'' = None"
    by code_simp+
  have su: "validateUsername username = None \<and> validatePassword pw = None \<and>
      Username user = username \<and>
      (\<exists>row. tbl' = tbl @ [row] \<and> u_username row = username)"
    if "CreateUser generate io tbl username pw = (Inr user, tbl')"
    using CreateUser_Inr [OF that] by (auto simp: user_of_row_fields new_row_def)
  have tr: "3 \<le> length (Username user) \<and> length (Username user) \<le> 50 \<and>
      set (Username user) \<subseteq> set (lower_letters @ upper_letters @ digits @ ''_-'')"
    if "CreateUser generate io tbl username pw = (Inr user, tbl')" "TrimSpace username = username"
    using su [OF that(1)] that(2) validateUsername_None_iff [of username] by simp
  note vu = validateUsername_None_iff [of username] and vp = validatePassword_None_iff [of pw]
    and eu = validateUsername_error [of username e] and ep = validatePassword_error [of pw e]
    and iu = CreateUser_invalid_username [of username e generate io tbl pw]
    and ip = CreateUser_invalid_password [of username pw e generate io tbl]
  show ?thesis
    apply (intro conjI)
           apply (rule impI, rule conjI, rule eu, assumption, rule iu, assumption)
          apply (rule impI, elim conjE, rule conjI, rule ep, assumption, rule ip, assumption+)
         apply (rule vu)
        apply (rule vp)
       apply (rule impI, rule su, assumption)
      apply (rule impI, elim conjE, rule tr, assumption+)
     apply (rule ex(1))
    apply (rule ex(2))
    done
qed

theorem C9_CreateUser_validation_witness:
  "validateUsername '' abc'' = None \<and>
   CreateUser sample_generate sample_create_io [] '' abc'' ''Valid1Pass'' =
     (Inr (user_of_row (new_row sample_create_io '' abc''
             [86, 97, 108, 105, 100, 49, 80, 97, 115, 115])),
      [new_row sample_create_io '' abc'' [86, 97, 108, 105, 100, 49, 80, 97, 115, 115]]) \<and>
   u_username (new_row sample_create_io '' abc''
      [86, 97, 108, 105, 100, 49, 80, 97, 115, 115]) = '' abc'' \<and>
   \<not> set '' abc'' \<subseteq> set (lower_letters @ upper_letters @ digits @ ''_-'') \<and>
   CreateUser sample_generate sample_create_io [] ''ab'' ''Valid1Pass'' =
     (Inl ErrInvalidUsername, [])"
proof -
  have run: "CreateUser sample_generate sample_create_io [] '' abc'' ''Valid1Pass'' =
     (Inr (user_of_row (new_row sample_create_io '' abc''
             [86, 97, 108, 105, 100, 49, 80, 97, 115, 115])),
      [new_row sample_create_io '' abc'' [86, 97, 108, 105, 100, 49, 80, 97, 115, 115]])"
    unfolding new_row_def user_of_row_def by code_simp
  have sp: "\<not> set '' abc'' \<subseteq> set (lower_letters @ upper_letters @ digits @ ''_-'')"
    by (simp add: lower_letters_def upper_letters_def digits_def)
  from run C9_CreateUser_validation [where generate = sample_generate and io = sample_create_io
      and tbl = "[]" and username = "'' abc''" and pw = "''Valid1Pass''"
      and user = "user_of_row (new_row sample_create_io '' abc''
             [86, 97, 108, 105, 100, 49, 80, 97, 115, 115])"
      and tbl' = "[new_row sample_create_io '' abc''
             [86, 97, 108, 105, 100, 49, 80, 97, 115, 115]]" and e = ErrInvalidUsername]
  have v: "validateUsername '' abc'' = None" by blast
  from C9_CreateUser_validation [where generate = sample_generate and io = sample_create_io
      and tbl = "[]" and username = "''ab''" and pw = "''Valid1Pass''"
      and user = "user_of_row (new_row sample_create_io '' abc''
             [86, 97, 108, 105, 100, 49, 80, 97, 115, 115])"
      and tbl' = "[]" and e = ErrInvalidUsername]
  have r: "CreateUser sample_generate sample_create_io [] ''ab'' ''Valid1Pass'' =
     (Inl ErrInvalidUsername, [])"
    by blast
  have n: "u_username (new_row sample_create_io '' abc''
      [86, 97, 108, 105, 100, 49, 80, 97, 115, 115]) = '' abc''"
    by (simp add: new_row_def)
  from v run n sp r show ?thesis by blast
qed

section \<open>The password holder\<close>

lemma password_Set_ok:
  "generate pw 12 = Inr h \<Longrightarrow>
     password_Set generate p pw = (None, \<lparr>plainText = Some pw, hash = h\<rparr>)"
  by (simp add: password_Set_def)

lemma password_Set_fails:
  "generate pw 12 = Inl e \<Longrightarrow> password_Set generate p pw = (Some e, p)"
  by (simp add: password_Set_def)

text \<open>
  Claim C7, as stated, fails: after a successful \<open>password_Set\<close> the holder still has
  the plaintext.
\<close>

theorem C7_Set_keeps_plaintext_counterexample:
  "fst (password_Set sample_generate \<lparr>plainText = None, hash = []\<rparr> ''Valid1Pass'') = None \<and>
   plainText (snd (password_Set sample_generate \<lparr>plainText = None, hash = []\<rparr> ''Valid1Pass''))
     = Some ''Valid1Pass'' \<and>
   plainText (snd (password_Set sample_generate \<lparr>plainText = None, hash = []\<rparr> ''Valid1Pass''))
     \<noteq> None"
  by (simp add: password_Set_def sample_generate_def)

text \<open>
  Claim C7, amended. \<open>password_Set\<close> asks for the hash with cost 12, and its result
  depends on the hashing function at that password and that cost only. On success it
  stores the hash and keeps the plaintext in the holder; on failure it returns the error
  and leaves the holder as it was. \<open>password_ClearPlainText\<close> drops the plaintext and
  keeps the hash, and the user that \<open>CreateUser\<close> returns has been through it: it
  holds no plaintext, and the row stored has the hash only. \<open>password_Matches\<close> returns
  true without error when the comparison succeeds, false without error when it reports a
  mismatch, and false with the error on every other failure.
\<close>

theorem C7_password_holder:
  "(generate pw 12 = Inr h \<longrightarrow>
      password_Set generate p pw = (None, \<lparr>plainText = Some pw, hash = h\<rparr>)) \<and>
   (generate pw 12 = Inl e \<longrightarrow> password_Set generate p pw = (Some e, p)) \<and>
   (generate pw 12 = generate' pw 12 \<longrightarrow>
      password_Set generate p pw = password_Set generate' p pw) \<and>
   password_ClearPlainText p = \<lparr>plainText = None, hash = hash p\<rparr> \<and>
   (CreateUser generate io tbl username pw = (Inr user, tbl') \<longrightarrow>
      plainText (PasswordHash user) = None \<and>
      generate pw 12 = Inr (hash (PasswordHash user)) \<and>
      (\<exists>row. tbl' = tbl @ [row] \<and> u_password_hash row = hash (PasswordHash user))) \<and>
   (cmp (hash p) candidate = None \<longrightarrow> password_Matches cmp p candidate = (True, None)) \<and>
   (cmp (hash p) candidate = Some ErrMismatchedHashAndPassword \<longrightarrow>
      password_Matches cmp p candidate = (False, None)) \<and>
   (cmp (hash p) candidate = Some e \<and> e \<noteq> ErrMismatchedHashAndPassword \<longrightarrow>
      password_Matches cmp p candidate = (False, Some e))"
proof -
  have same: "password_Set generate p pw = password_Set generate' p pw"
    if "generate pw 12 = generate' pw 12"
    using that by (simp add: password_Set_def)
  have clear: "password_ClearPlainText p = \<lparr>plainText = None, hash = hash p\<rparr>"
    by (simp add: password_ClearPlainText_def)
  have cu: "plainText (PasswordHash user) = None \<and>
      generate pw 12 = Inr (hash (PasswordHash user)) \<and>
      (\<exists>row. tbl' = tbl @ [row] \<and> u_password_hash row = hash (PasswordHash user))"
    if "CreateUser generate io tbl username pw = (Inr user, tbl')"
    using CreateUser_Inr [OF that] by (auto simp: user_of_row_fields new_row_def)
  from same clear cu password_Set_ok [of generate pw h p] password_Set_fails [of generate pw e p]
    password_Matches_ok [of cmp p candidate] password_Matches_mismatch [of cmp p candidate]
    password_Matches_error [of cmp p candidate e]
  show ?thesis by blast
qed

theorem C7_password_holder_witness:
  "password_Set sample_generate \<lparr>plainText = None, hash = []\<rparr> ''Pw'' =
     (None, \<lparr>plainText = Some ''Pw'', hash = [80, 119]\<rparr>) \<and>
   password_ClearPlainText \<lparr>plainText = Some ''Pw'', hash = [80, 119]\<rparr> =
     \<lparr>plainText = None, hash = [80, 119]\<rparr> \<and>
   password_Matches sample_compare \<lparr>plainText = None, hash = [80, 119]\<rparr> ''Pw'' = (True, None) \<and>
   password_Matches sample_compare \<lparr>plainText = None, hash = [80, 119]\<rparr> ''pw'' = (False, None) \<and>
   password_Matches sample_compare \<lparr>plainText = None, hash = []\<rparr> ''Pw'' =
     (False, Some (ErrOther ''hash too short''))"
proof -
  have g: "sample_generate ''Pw'' 12 = Inr [80, 119]"
    unfolding sample_generate_def by code_simp
  have c: "sample_compare [80, 119] ''Pw'' = None"
      "sample_compare [80, 119] ''pw'' = Some ErrMismatchedHashAndPassword"
      "sample_compare [] ''Pw'' = Some (ErrOther ''hash too short'')"
    unfolding sample_compare_def by code_simp+
  note inst = C7_password_holder [where generate = sample_generate and generate' = sample_generate
      and pw = "''Pw''" and h = "[80, 119]" and io = sample_create_io and tbl = "[]"
      and username = "''ab''" and user = "user_of_row (hd sample_users)" and tbl' = "[]"
      and cmp = sample_compare and e = "ErrOther ''hash too short''"]
  from g inst [where p = "\<lparr>plainText = None, hash = []\<rparr>" and candidate = "''Pw''"]
  have 1: "password_Set sample_generate \<lparr>plainText = None, hash = []\<rparr> ''Pw'' =
     (None, \<lparr>plainText = Some ''Pw'', hash = [80, 119]\<rparr>)"
    by blast
  from inst [where p = "\<lparr>plainText = Some ''Pw'', hash = [80, 119]\<rparr>" and candidate = "''Pw''"]
  have 2: "password_ClearPlainText \<lparr>plainText = Some ''Pw'', hash = [80, 119]\<rparr> =
     \<lparr>plainText = None, hash = [80, 119]\<rparr>"
    by simp
  from c inst [where p = "\<lparr>plainText = None, hash = [80, 119]\<rparr>" and candidate = "''Pw''"]
  have 3: "password_Matches sample_compare \<lparr>plainText = None, hash = [80, 119]\<rparr> ''Pw'' =
      (True, None)"
    by simp
  from c inst [where p = "\<lparr>plainText = None, hash = [80, 119]\<rparr>" and candidate = "''pw''"]
  have 4: "password_Matches sample_compare \<lparr>plainText = None, hash = [80, 119]\<rparr> ''pw'' =
      (False, None)"
    by simp
  from c inst [where p = "\<lparr>plainText = None, hash = []\<rparr>" and candidate = "''Pw''"]
  have 5: "password_Matches sample_compare \<lparr>plainText = None, hash = []\<rparr> ''Pw'' =
     (False, Some (ErrOther ''hash too short''))"
    by simp
  from 1 2 3 4 5 show ?thesis by blast
qed

end
